theory Spec2Isabelle
  imports Complex_Main "HOL-Library.Monad_Syntax"
begin

section \<open>The Gemma3 vision encoder: configuration and construction\<close>

text \<open>
  The source is \<^verbatim>\<open>keras_hub/src/models/gemma3/gemma3_vision_encoder.py\<close>. Python's
  integers are \<^typ>\<open>int\<close>; \<^verbatim>\<open>a // b\<close> is floor division, which is \<^term>\<open>(div)\<close> on
  \<^typ>\<open>int\<close>, and raises \<^verbatim>\<open>ZeroDivisionError\<close> for \<^verbatim>\<open>b == 0\<close>. Every raise of the
  source is a branch \<^term>\<open>Inl e\<close> of the model.

  The Keras library (\<^verbatim>\<open>Dense\<close>, \<^verbatim>\<open>Conv2D\<close>, \<^verbatim>\<open>keras.Input\<close>, ...) is not part of the
  repository. Every call of the source into the library may raise there; which calls
  the library performs without raising is a parameter \<open>lib\<close> of the model, and a call
  that \<open>lib\<close> refuses is the error \<^verbatim>\<open>LibraryError\<close>.
\<close>

datatype error = ValueError | ZeroDivisionError | OverflowError | LibraryError

definition floordiv :: "int \<Rightarrow> int \<Rightarrow> error + int" where
  "floordiv a b = (if b = 0 then Inl ZeroDivisionError else Inr (a div b))"

text \<open>
  The conversion of an integer to a float, as \<^verbatim>\<open>n ** -0.5\<close> performs it, raises
  \<^verbatim>\<open>OverflowError\<close> when \<open>n\<close> rounds to a magnitude of \<^verbatim>\<open>2 ** 1024\<close> or more, that
  is from \<^verbatim>\<open>2 ** 1024 - 2 ** 970\<close> on.
\<close>

definition float_overflow :: "int \<Rightarrow> bool" where
  "float_overflow n = (2 ^ 1024 - 2 ^ 970 \<le> \<bar>n\<bar>)"

text \<open>
  The \<^verbatim>\<open>dtype\<close> argument: \<^verbatim>\<open>None\<close>, a string, or a \<^verbatim>\<open>DTypePolicy\<close> object (with
  its name).
\<close>

datatype dtype_arg = DNone | DStr string | DPolicy string

text \<open>
  \<^verbatim>\<open>dtype == "bfloat16"\<close>: Python's equality of the argument with a string. A string
  is equal to an equal string; \<^verbatim>\<open>None\<close> is not equal to a string; a policy object is
  not a string and compares unequal to one.
\<close>

fun dtype_eq_str :: "dtype_arg \<Rightarrow> string \<Rightarrow> bool" where
  "dtype_eq_str (DStr s) t = (s = t)"
| "dtype_eq_str DNone t = False"
| "dtype_eq_str (DPolicy n) t = False"

text \<open>
  \<^verbatim>\<open>self.dtype_policy\<close> of a layer constructed with \<^verbatim>\<open>dtype=d\<close>: the policy named by a
  string, a policy object itself; \<^verbatim>\<open>None\<close> stands for the process-wide policy.
\<close>

fun dtype_policy :: "dtype_arg \<Rightarrow> dtype_arg" where
  "dtype_policy (DStr s) = DPolicy s"
| "dtype_policy (DPolicy n) = DPolicy n"
| "dtype_policy DNone = DNone"

fun dtype_name :: "dtype_arg \<Rightarrow> string option" where
  "dtype_name (DStr s) = Some s"
| "dtype_name (DPolicy n) = Some n"
| "dtype_name DNone = None"

datatype initializer = GlorotUniform | RandomNormal real real

text \<open>Descriptors of the library layers the source constructs, with their arguments.\<close>

datatype keras_layer =
    Conv2D int int int dtype_arg string
  | Embedding int int dtype_arg string
  | Dense int bool initializer dtype_arg string
  | LayerNormalization real dtype_arg string
  | RMSNormalization real dtype_arg string
  | Dropout real dtype_arg string
  | AveragePooling2D int int dtype_arg string

fun keras_dtype :: "keras_layer \<Rightarrow> dtype_arg" where
  "keras_dtype (Conv2D f k s d n) = d"
| "keras_dtype (Embedding a b d n) = d"
| "keras_dtype (Dense u b i d n) = d"
| "keras_dtype (LayerNormalization e d n) = d"
| "keras_dtype (RMSNormalization e d n) = d"
| "keras_dtype (Dropout r d n) = d"
| "keras_dtype (AveragePooling2D p s d n) = d"

text \<open>Shapes: a dimension is a number or \<^verbatim>\<open>None\<close>.\<close>

type_synonym shape = "int option list"

text \<open>
  The calls of the source into the library: the construction of a layer, the
  \<^verbatim>\<open>build\<close> of a layer for an input shape, the initialisation of the base class
  \<^verbatim>\<open>keras.layers.Layer\<close> with a \<^verbatim>\<open>dtype\<close>, \<^verbatim>\<open>keras.Input\<close>,
  \<^verbatim>\<open>ops.expand_dims(ops.arange(n), axis=0)\<close>, \<^verbatim>\<open>keras.initializers.get\<close>, the
  initialisation of \<^verbatim>\<open>keras.Model\<close> from the symbolic input and output (with the
  calls of the layers on the symbolic tensors), and \<^verbatim>\<open>keras.dtype_policies.get\<close>.
\<close>

datatype library_call =
    New keras_layer
  | Build keras_layer shape
  | LayerInit dtype_arg
  | Input shape
  | Arange int
  | InitializerGet initializer
  | ModelInit shape shape
  | PolicyGet dtype_arg

text \<open>The calls in the order of the source; the first one refused raises.\<close>

definition library ::
  "(library_call \<Rightarrow> bool) \<Rightarrow> library_call list \<Rightarrow> error + 'a \<Rightarrow> error + 'a" where
  "library lib calls rest = (if list_all lib calls then rest else Inl LibraryError)"

text \<open>
  One library for the concrete instances below: it refuses sizes that are not
  positive, dropout rates outside \<open>[0, 1]\<close>, negative dimensions and precisions
  other than the floating formats, and performs every other call.
\<close>

definition known_dtype :: "dtype_arg \<Rightarrow> bool" where
  "known_dtype d =
     (case dtype_name d of
        None \<Rightarrow> True
      | Some n \<Rightarrow> n \<in> set [''float16'', ''bfloat16'', ''float32'', ''float64''])"

fun accepts_layer :: "keras_layer \<Rightarrow> bool" where
  "accepts_layer (Conv2D f k s d n) = (0 < f \<and> 0 < k \<and> 0 < s \<and> known_dtype d)"
| "accepts_layer (Embedding a b d n) = (0 < a \<and> 0 < b \<and> known_dtype d)"
| "accepts_layer (Dense u b i d n) = (0 < u \<and> known_dtype d)"
| "accepts_layer (LayerNormalization e d n) = known_dtype d"
| "accepts_layer (RMSNormalization e d n) = known_dtype d"
| "accepts_layer (Dropout r d n) = (0 \<le> r \<and> r \<le> 1 \<and> known_dtype d)"
| "accepts_layer (AveragePooling2D p s d n) = (0 < p \<and> 0 < s \<and> known_dtype d)"

fun keras_accepts :: "library_call \<Rightarrow> bool" where
  "keras_accepts (New l) = accepts_layer l"
| "keras_accepts (Build l s) = True"
| "keras_accepts (LayerInit d) = known_dtype d"
| "keras_accepts (Input s) = list_all (\<lambda>d. case d of None \<Rightarrow> True | Some n \<Rightarrow> 0 \<le> n) s"
| "keras_accepts (Arange n) = True"
| "keras_accepts (InitializerGet i) = True"
| "keras_accepts (ModelInit i o') = True"
| "keras_accepts (PolicyGet d) = known_dtype d"

subsection \<open>Gemma3VisionEmbedding\<close>

record Gemma3VisionEmbedding =
  emb_hidden_dim :: int
  emb_image_size :: int
  emb_patch_size :: int
  emb_num_channels :: int
  emb_patch_embedding :: keras_layer
  emb_num_patches :: int
  emb_num_positions :: int
  emb_position_embedding :: keras_layer
  emb_position_ids :: "int list"
  emb_dtype :: dtype_arg

text \<open>
  \<^verbatim>\<open>Gemma3VisionEmbedding.__init__(image_size, patch_size, hidden_dim, num_channels=3,
  dtype)\<close>, in the order of the source: the base class, the convolution, the floor
  division \<^verbatim>\<open>self.image_size // self.patch_size\<close>, the embedding, the position
  indices.
\<close>

definition Gemma3VisionEmbedding_init ::
  "(library_call \<Rightarrow> bool) \<Rightarrow> int \<Rightarrow> int \<Rightarrow> int \<Rightarrow> int \<Rightarrow> dtype_arg
     \<Rightarrow> error + Gemma3VisionEmbedding" where
  "Gemma3VisionEmbedding_init lib image_size patch_size hidden_dim num_channels dtype =
     library lib
       [LayerInit dtype, New (Conv2D hidden_dim patch_size patch_size dtype ''embedding_conv'')]
     (case floordiv image_size patch_size of
        Inl e \<Rightarrow> Inl e
      | Inr w \<Rightarrow>
          let num_patches = w ^ 2; num_positions = num_patches in
          library lib
            [New (Embedding num_positions hidden_dim dtype ''position_embedding''),
             Arange num_positions]
          (Inr \<lparr> emb_hidden_dim = hidden_dim,
                emb_image_size = image_size,
                emb_patch_size = patch_size,
                emb_num_channels = num_channels,
                emb_patch_embedding =
                  Conv2D hidden_dim patch_size patch_size dtype ''embedding_conv'',
                emb_num_patches = num_patches,
                emb_num_positions = num_positions,
                emb_position_embedding =
                  Embedding num_positions hidden_dim dtype ''position_embedding'',
                emb_position_ids = [0 .. num_positions - 1],
                emb_dtype = dtype \<rparr>))"

definition Gemma3VisionEmbedding_build ::
  "(library_call \<Rightarrow> bool) \<Rightarrow> Gemma3VisionEmbedding \<Rightarrow> shape \<Rightarrow> error + Gemma3VisionEmbedding" where
  "Gemma3VisionEmbedding_build lib l input_shape =
     library lib
       [Build (emb_patch_embedding l) input_shape,
        Build (emb_position_embedding l) [Some 1, Some (emb_num_positions l)]]
     (Inr l)"

definition Gemma3VisionEmbedding_compute_output_shape ::
  "Gemma3VisionEmbedding \<Rightarrow> shape \<Rightarrow> shape" where
  "Gemma3VisionEmbedding_compute_output_shape l input_shape =
     [input_shape ! 0, Some (emb_num_patches l), Some (emb_hidden_dim l)]"

subsection \<open>Gemma3VisionAttention\<close>

record Gemma3VisionAttention =
  attn_hidden_dim :: int
  attn_num_heads :: int
  attn_dropout :: real
  attn_head_dim :: int
  attn_dropout_layer :: keras_layer
  attn_query_proj :: keras_layer
  attn_key_proj :: keras_layer
  attn_value_proj :: keras_layer
  attn_out_proj :: keras_layer
  attn_dtype :: dtype_arg

text \<open>
  \<^verbatim>\<open>Gemma3VisionAttention.__init__(hidden_dim, num_heads, dropout=0.0, dtype)\<close>, in the
  order of the source: the base class; \<^verbatim>\<open>hidden_dim // num_heads\<close>, which raises for
  \<^verbatim>\<open>num_heads == 0\<close>; the explicit \<^verbatim>\<open>ValueError\<close> of the divisibility check; the
  dropout layer; \<^verbatim>\<open>self.head_dim**-0.5\<close>, which is a \<^verbatim>\<open>ZeroDivisionError\<close> for
  \<^verbatim>\<open>head_dim == 0\<close> and an \<^verbatim>\<open>OverflowError\<close> for a \<^verbatim>\<open>head_dim\<close> too large for a
  float; the four projections. The attribute \<^verbatim>\<open>scale\<close> is read nowhere in the file
  (\<^verbatim>\<open>call\<close> divides by \<^verbatim>\<open>sqrt(head_dim)\<close>) and is not kept in the record.
\<close>

definition Gemma3VisionAttention_init ::
  "(library_call \<Rightarrow> bool) \<Rightarrow> int \<Rightarrow> int \<Rightarrow> real \<Rightarrow> dtype_arg
     \<Rightarrow> error + Gemma3VisionAttention" where
  "Gemma3VisionAttention_init lib hidden_dim num_heads dropout dtype =
     library lib [LayerInit dtype]
     (case floordiv hidden_dim num_heads of
        Inl e \<Rightarrow> Inl e
      | Inr head_dim \<Rightarrow>
          if head_dim * num_heads \<noteq> hidden_dim then Inl ValueError
          else
            library lib [New (Dropout dropout dtype ''dropout'')]
            (if head_dim = 0 then Inl ZeroDivisionError
             else if float_overflow head_dim then Inl OverflowError
             else
               library lib
                 [New (Dense hidden_dim True GlorotUniform dtype ''query_proj''),
                  New (Dense hidden_dim True GlorotUniform dtype ''key_proj''),
                  New (Dense hidden_dim True GlorotUniform dtype ''value_proj''),
                  New (Dense hidden_dim True GlorotUniform dtype ''out_proj'')]
               (Inr \<lparr> attn_hidden_dim = hidden_dim,
                     attn_num_heads = num_heads,
                     attn_dropout = dropout,
                     attn_head_dim = head_dim,
                     attn_dropout_layer = Dropout dropout dtype ''dropout'',
                     attn_query_proj = Dense hidden_dim True GlorotUniform dtype ''query_proj'',
                     attn_key_proj = Dense hidden_dim True GlorotUniform dtype ''key_proj'',
                     attn_value_proj = Dense hidden_dim True GlorotUniform dtype ''value_proj'',
                     attn_out_proj = Dense hidden_dim True GlorotUniform dtype ''out_proj'',
                     attn_dtype = dtype \<rparr>)))"

text \<open>\<^verbatim>\<open>Gemma3VisionAttention.build\<close>: the four projections are built.\<close>

definition Gemma3VisionAttention_build ::
  "(library_call \<Rightarrow> bool) \<Rightarrow> Gemma3VisionAttention \<Rightarrow> error + Gemma3VisionAttention" where
  "Gemma3VisionAttention_build lib a =
     (let s = [None, None, Some (attn_hidden_dim a)] in
      library lib
        [Build (attn_query_proj a) s, Build (attn_key_proj a) s,
         Build (attn_value_proj a) s, Build (attn_out_proj a) s]
      (Inr a))"

subsection \<open>Gemma3VisionEncoderLayer\<close>

text \<open>
  The sublayers of an encoder layer are created by \<^verbatim>\<open>build\<close>; before that the
  attributes do not exist (\<^term>\<open>None\<close>).
\<close>

record Gemma3VisionEncoderLayer =
  el_num_heads :: int
  el_intermediate_dim :: int
  el_layer_norm_epsilon :: real
  el_dtype :: dtype_arg
  el_name :: string
  el_attn :: "Gemma3VisionAttention option"
  el_layer_norm_1 :: "keras_layer option"
  el_mlp_dense_1 :: "keras_layer option"
  el_mlp_dense_2 :: "keras_layer option"
  el_layer_norm_2 :: "keras_layer option"
  el_built :: bool

definition Gemma3VisionEncoderLayer_init ::
  "(library_call \<Rightarrow> bool) \<Rightarrow> int \<Rightarrow> int \<Rightarrow> real \<Rightarrow> dtype_arg \<Rightarrow> string
     \<Rightarrow> error + Gemma3VisionEncoderLayer" where
  "Gemma3VisionEncoderLayer_init lib num_heads intermediate_dim layer_norm_epsilon dtype name =
     library lib [LayerInit dtype]
     (Inr \<lparr> el_num_heads = num_heads,
           el_intermediate_dim = intermediate_dim,
           el_layer_norm_epsilon = layer_norm_epsilon,
           el_dtype = dtype,
           el_name = name,
           el_attn = None,
           el_layer_norm_1 = None,
           el_mlp_dense_1 = None,
           el_mlp_dense_2 = None,
           el_layer_norm_2 = None,
           el_built = False \<rparr>)"

text \<open>
  \<^verbatim>\<open>Gemma3VisionEncoderLayer.build(input_shape)\<close> with
  \<^verbatim>\<open>hidden_dim = input_shape[-1]\<close>: the attention layer, constructed with the default
  \<^verbatim>\<open>dropout=0.0\<close>, and the four library layers are constructed, then built.
\<close>

definition Gemma3VisionEncoderLayer_build ::
  "(library_call \<Rightarrow> bool) \<Rightarrow> Gemma3VisionEncoderLayer \<Rightarrow> int
     \<Rightarrow> error + Gemma3VisionEncoderLayer" where
  "Gemma3VisionEncoderLayer_build lib l hidden_dim =
     (let p = dtype_policy (el_dtype l);
          ln1 = LayerNormalization (el_layer_norm_epsilon l) p ''layer_norm_1'';
          d1 = Dense (el_intermediate_dim l) True GlorotUniform p ''mlp_dense_1'';
          d2 = Dense hidden_dim True GlorotUniform p ''mlp_dense_2'';
          ln2 = LayerNormalization (el_layer_norm_epsilon l) p ''layer_norm_2'';
          s = [None, None, Some hidden_dim]
      in
      case Gemma3VisionAttention_init lib hidden_dim (el_num_heads l) 0 p of
        Inl e \<Rightarrow> Inl e
      | Inr a0 \<Rightarrow>
          library lib [New ln1, New d1, New d2, New ln2]
          (case Gemma3VisionAttention_build lib a0 of
             Inl e \<Rightarrow> Inl e
           | Inr a \<Rightarrow>
               library lib
                 [Build ln1 s, Build d1 s,
                  Build d2 [None, None, Some (el_intermediate_dim l)], Build ln2 s]
               (Inr (l \<lparr> el_attn := Some a,
                        el_layer_norm_1 := Some ln1,
                        el_mlp_dense_1 := Some d1,
                        el_mlp_dense_2 := Some d2,
                        el_layer_norm_2 := Some ln2,
                        el_built := True \<rparr>))))"


subsection \<open>Gemma3VisionEncoderBlock\<close>

text \<open>\<^verbatim>\<open>str(i)\<close> for a natural number, for the names \<^verbatim>\<open>f"encoder_block_{i}"\<close>.\<close>

definition digit_char :: "nat \<Rightarrow> char" where
  "digit_char d = char_of (48 + d)"

fun str_nat :: "nat \<Rightarrow> string" where
  "str_nat n = (if n < 10 then [digit_char n] else str_nat (n div 10) @ [digit_char (n mod 10)])"

declare str_nat.simps [simp del]

record Gemma3VisionEncoderBlock =
  blk_patch_size :: int
  blk_image_size :: int
  blk_hidden_dim :: int
  blk_num_layers :: int
  blk_num_heads :: int
  blk_intermediate_dim :: int
  blk_layer_norm_epsilon :: real
  blk_encoder_layer_norm :: keras_layer
  blk_vision_embeddings :: Gemma3VisionEmbedding
  blk_resblocks :: "Gemma3VisionEncoderLayer list"
  blk_dtype :: dtype_arg
  blk_built :: bool

text \<open>A list of results, up to the first raise.\<close>

fun collect :: "(error + 'a) list \<Rightarrow> error + 'a list" where
  "collect [] = Inr []"
| "collect (r # rs) =
     (case r of
        Inl e \<Rightarrow> Inl e
      | Inr x \<Rightarrow> (case collect rs of Inl e \<Rightarrow> Inl e | Inr xs \<Rightarrow> Inr (x # xs)))"

text \<open>
  \<^verbatim>\<open>Gemma3VisionEncoderBlock.__init__\<close>. The embedding is constructed with the default
  \<^verbatim>\<open>num_channels=3\<close>, and every encoder layer with the default
  \<^verbatim>\<open>layer_norm_epsilon=1e-6\<close>: the source does not pass the block's own value on.
  \<^verbatim>\<open>range(num_layers)\<close> is empty for a negative \<^verbatim>\<open>num_layers\<close>.
\<close>

definition Gemma3VisionEncoderBlock_init ::
  "(library_call \<Rightarrow> bool) \<Rightarrow> int \<Rightarrow> int \<Rightarrow> int \<Rightarrow> int \<Rightarrow> int \<Rightarrow> int \<Rightarrow> real \<Rightarrow> dtype_arg
     \<Rightarrow> error + Gemma3VisionEncoderBlock" where
  "Gemma3VisionEncoderBlock_init lib patch_size image_size hidden_dim num_layers num_heads
       intermediate_dim layer_norm_epsilon dtype =
     library lib
       [LayerInit dtype, New (LayerNormalization layer_norm_epsilon dtype ''encoder_layer_norm'')]
     (case Gemma3VisionEmbedding_init lib image_size patch_size hidden_dim 3 dtype of
        Inl e \<Rightarrow> Inl e
      | Inr emb \<Rightarrow>
          (case collect
                  (map (\<lambda>i. Gemma3VisionEncoderLayer_init lib num_heads intermediate_dim
                               (1 / 10 ^ 6) dtype (''encoder_block_'' @ str_nat i))
                     [0 ..< nat num_layers]) of
             Inl e \<Rightarrow> Inl e
           | Inr resblocks \<Rightarrow>
               Inr \<lparr> blk_patch_size = patch_size,
                     blk_image_size = image_size,
                     blk_hidden_dim = hidden_dim,
                     blk_num_layers = num_layers,
                     blk_num_heads = num_heads,
                     blk_intermediate_dim = intermediate_dim,
                     blk_layer_norm_epsilon = layer_norm_epsilon,
                     blk_encoder_layer_norm =
                       LayerNormalization layer_norm_epsilon dtype ''encoder_layer_norm'',
                     blk_vision_embeddings = emb,
                     blk_resblocks = resblocks,
                     blk_dtype = dtype,
                     blk_built = False \<rparr>))"

text \<open>The loop \<^verbatim>\<open>for block in self.resblocks: block.build(...)\<close>; a raise ends it.\<close>

fun build_resblocks ::
  "(library_call \<Rightarrow> bool) \<Rightarrow> Gemma3VisionEncoderLayer list \<Rightarrow> int
     \<Rightarrow> error + Gemma3VisionEncoderLayer list" where
  "build_resblocks lib [] hidden_dim = Inr []"
| "build_resblocks lib (l # ls) hidden_dim =
     (case Gemma3VisionEncoderLayer_build lib l hidden_dim of
        Inl e \<Rightarrow> Inl e
      | Inr l' \<Rightarrow>
          (case build_resblocks lib ls hidden_dim of
             Inl e \<Rightarrow> Inl e
           | Inr ls' \<Rightarrow> Inr (l' # ls')))"

text \<open>
  \<^verbatim>\<open>Gemma3VisionEncoderBlock.build(inputs_shape)\<close>: the embedding is built for
  \<^verbatim>\<open>[None] + list(inputs_shape[2:])\<close>, then the encoder layers, then the final
  normalization.
\<close>

definition Gemma3VisionEncoderBlock_build ::
  "(library_call \<Rightarrow> bool) \<Rightarrow> Gemma3VisionEncoderBlock \<Rightarrow> shape
     \<Rightarrow> error + Gemma3VisionEncoderBlock" where
  "Gemma3VisionEncoderBlock_build lib b inputs_shape =
     (case Gemma3VisionEmbedding_build lib (blk_vision_embeddings b)
             (None # drop 2 inputs_shape) of
        Inl e \<Rightarrow> Inl e
      | Inr emb \<Rightarrow>
          (case build_resblocks lib (blk_resblocks b) (blk_hidden_dim b) of
             Inl e \<Rightarrow> Inl e
           | Inr ls \<Rightarrow>
               library lib
                 [Build (blk_encoder_layer_norm b) [None, None, Some (blk_hidden_dim b)]]
               (Inr (b \<lparr> blk_vision_embeddings := emb, blk_resblocks := ls,
                        blk_built := True \<rparr>))))"

text \<open>
  \<^verbatim>\<open>compute_output_shape(inputs_shape)\<close>; the argument may be \<^verbatim>\<open>None\<close>. In the
  encoder \<^verbatim>\<open>inputs_shape[2]\<close> is a number (the image size).
\<close>

definition Gemma3VisionEncoderBlock_compute_output_shape ::
  "Gemma3VisionEncoderBlock \<Rightarrow> shape option \<Rightarrow> error + shape" where
  "Gemma3VisionEncoderBlock_compute_output_shape b inputs_shape =
     (case inputs_shape of
        None \<Rightarrow> Inr [None, None, Some (blk_hidden_dim b)]
      | Some s \<Rightarrow>
          (case floordiv (the (s ! 2)) (blk_patch_size b) of
             Inl e \<Rightarrow> Inl e
           | Inr w \<Rightarrow> Inr [None, Some (w ^ 2), Some (blk_hidden_dim b)]))"

subsection \<open>Gemma3VisionAveragePooling\<close>

record Gemma3VisionAveragePooling =
  pool_width :: int
  pool_reduced_width :: int
  pool_image_size :: int
  pool_patch_size :: int
  pool_pool_size :: int
  pool_dtype :: dtype_arg
  pool_average_pooling :: "keras_layer option"

definition Gemma3VisionAveragePooling_init ::
  "(library_call \<Rightarrow> bool) \<Rightarrow> int \<Rightarrow> int \<Rightarrow> int \<Rightarrow> dtype_arg
     \<Rightarrow> error + Gemma3VisionAveragePooling" where
  "Gemma3VisionAveragePooling_init lib image_size patch_size pool_size dtype =
     library lib [LayerInit dtype]
     (case floordiv image_size patch_size of
        Inl e \<Rightarrow> Inl e
      | Inr width \<Rightarrow>
          (case floordiv width pool_size of
             Inl e \<Rightarrow> Inl e
           | Inr reduced_width \<Rightarrow>
               Inr \<lparr> pool_width = width,
                     pool_reduced_width = reduced_width,
                     pool_image_size = image_size,
                     pool_patch_size = patch_size,
                     pool_pool_size = pool_size,
                     pool_dtype = dtype,
                     pool_average_pooling = None \<rparr>))"

definition Gemma3VisionAveragePooling_build ::
  "(library_call \<Rightarrow> bool) \<Rightarrow> Gemma3VisionAveragePooling \<Rightarrow> error + Gemma3VisionAveragePooling" where
  "Gemma3VisionAveragePooling_build lib p =
     (let average_pooling =
            AveragePooling2D (pool_pool_size p) (pool_pool_size p)
              (dtype_policy (pool_dtype p)) ''average_pooling''
      in library lib [New average_pooling]
           (Inr (p \<lparr> pool_average_pooling := Some average_pooling \<rparr>)))"

definition Gemma3VisionAveragePooling_compute_output_shape ::
  "Gemma3VisionAveragePooling \<Rightarrow> shape \<Rightarrow> shape" where
  "Gemma3VisionAveragePooling_compute_output_shape p input_shape =
     [input_shape ! 0,
      Some (pool_reduced_width p * pool_reduced_width p),
      last input_shape]"

subsection \<open>Gemma3VisionOutput\<close>

record Gemma3VisionOutput =
  out_layer_norm_epsilon :: real
  out_output_dim :: int
  out_kernel_initializer :: initializer
  out_dtype :: dtype_arg
  out_vision_soft_embedding_norm :: "keras_layer option"
  out_vision_input_projection :: "keras_layer option"

definition Gemma3VisionOutput_init ::
  "(library_call \<Rightarrow> bool) \<Rightarrow> int \<Rightarrow> real \<Rightarrow> initializer \<Rightarrow> dtype_arg
     \<Rightarrow> error + Gemma3VisionOutput" where
  "Gemma3VisionOutput_init lib output_dim layer_norm_epsilon kernel_initializer dtype =
     library lib [LayerInit dtype, InitializerGet kernel_initializer]
     (Inr \<lparr> out_layer_norm_epsilon = layer_norm_epsilon,
           out_output_dim = output_dim,
           out_kernel_initializer = kernel_initializer,
           out_dtype = dtype,
           out_vision_soft_embedding_norm = None,
           out_vision_input_projection = None \<rparr>)"

definition Gemma3VisionOutput_build ::
  "(library_call \<Rightarrow> bool) \<Rightarrow> Gemma3VisionOutput \<Rightarrow> shape \<Rightarrow> error + Gemma3VisionOutput" where
  "Gemma3VisionOutput_build lib l input_shape =
     (let norm = RMSNormalization (out_layer_norm_epsilon l) (dtype_policy (out_dtype l))
                   ''vision_soft_embedding_norm'';
          proj = Dense (out_output_dim l) False (out_kernel_initializer l)
                   (dtype_policy (out_dtype l)) ''vision_input_projection''
      in library lib [New norm, Build norm input_shape, New proj, Build proj input_shape]
           (Inr (l \<lparr> out_vision_soft_embedding_norm := Some norm,
                    out_vision_input_projection := Some proj \<rparr>)))"

definition Gemma3VisionOutput_compute_output_shape ::
  "Gemma3VisionOutput \<Rightarrow> shape \<Rightarrow> shape" where
  "Gemma3VisionOutput_compute_output_shape l input_shape =
     butlast input_shape @ [Some (out_output_dim l)]"

subsection \<open>Configurations\<close>

text \<open>
  A configuration is a Python dictionary from field names to values;
  \<^verbatim>\<open>config.update({...})\<close> writes the entries one after the other. The result of
  \<^verbatim>\<open>super().get_config()\<close> is library code and is a parameter of every
  \<^verbatim>\<open>get_config\<close> below. A Python function that ends without \<^verbatim>\<open>return\<close> returns
  \<^verbatim>\<open>None\<close>.
\<close>

datatype cfg_value =
    IntV int | FloatV real | StrV string | BoolV bool | DtypeV dtype_arg | InitV initializer

type_synonym config = "(string \<times> cfg_value) list"

fun dict_set :: "string \<Rightarrow> cfg_value \<Rightarrow> config \<Rightarrow> config" where
  "dict_set k v [] = [(k, v)]"
| "dict_set k v ((k', v') # r) =
     (if k = k' then (k, v) # r else (k', v') # dict_set k v r)"

definition dict_update :: "config \<Rightarrow> config \<Rightarrow> config" where
  "dict_update c kvs = fold (\<lambda>(k, v). dict_set k v) kvs c"

definition Gemma3VisionAttention_get_config ::
  "Gemma3VisionAttention \<Rightarrow> config \<Rightarrow> config option" where
  "Gemma3VisionAttention_get_config l super_config =
     (let config = dict_update super_config
        [(''hidden_dim'', IntV (attn_hidden_dim l)),
         (''num_heads'', IntV (attn_num_heads l)),
         (''dropout'', FloatV (attn_dropout l))]
      in Some config)"

definition Gemma3VisionEncoderLayer_get_config ::
  "Gemma3VisionEncoderLayer \<Rightarrow> config \<Rightarrow> config option" where
  "Gemma3VisionEncoderLayer_get_config l super_config =
     (let config = dict_update super_config
        [(''num_heads'', IntV (el_num_heads l)),
         (''intermediate_dim'', IntV (el_intermediate_dim l)),
         (''layer_norm_epsilon'', FloatV (el_layer_norm_epsilon l))]
      in Some config)"

definition Gemma3VisionEncoderBlock_get_config ::
  "Gemma3VisionEncoderBlock \<Rightarrow> config \<Rightarrow> config option" where
  "Gemma3VisionEncoderBlock_get_config b super_config =
     (let config = dict_update super_config
        [(''hidden_dim'', IntV (blk_hidden_dim b)),
         (''num_layers'', IntV (blk_num_layers b)),
         (''num_heads'', IntV (blk_num_heads b)),
         (''intermediate_dim'', IntV (blk_intermediate_dim b)),
         (''patch_size'', IntV (blk_patch_size b)),
         (''image_size'', IntV (blk_image_size b)),
         (''layer_norm_epsilon'', FloatV (blk_layer_norm_epsilon b))]
      in Some config)"

definition Gemma3VisionAveragePooling_get_config ::
  "Gemma3VisionAveragePooling \<Rightarrow> config \<Rightarrow> config option" where
  "Gemma3VisionAveragePooling_get_config p super_config =
     (let config = dict_update super_config
        [(''image_size'', IntV (pool_image_size p)),
         (''patch_size'', IntV (pool_patch_size p)),
         (''pool_size'', IntV (pool_pool_size p))]
      in Some config)"

text \<open>
  \<^verbatim>\<open>Gemma3VisionOutput.get_config\<close> updates the dictionary and ends: the source has no
  \<^verbatim>\<open>return config\<close> here.
\<close>

definition Gemma3VisionOutput_get_config ::
  "Gemma3VisionOutput \<Rightarrow> config \<Rightarrow> config option" where
  "Gemma3VisionOutput_get_config l super_config =
     (let config = dict_update super_config
        [(''output_dim'', IntV (out_output_dim l)),
         (''layer_norm_epsilon'', FloatV (out_layer_norm_epsilon l)),
         (''kernel_initializer'', InitV (out_kernel_initializer l))]
      in None)"

subsection \<open>Gemma3VisionEncoder\<close>

record Gemma3VisionEncoder =
  enc_image_encoder :: Gemma3VisionEncoderBlock
  enc_pooling :: Gemma3VisionAveragePooling
  enc_vision_output_encoder :: Gemma3VisionOutput
  enc_output_shape :: shape
  enc_image_size :: int
  enc_patch_size :: int
  enc_num_heads :: int
  enc_hidden_dim :: int
  enc_num_layers :: int
  enc_intermediate_dim :: int
  enc_output_dim :: int
  enc_pool_size :: int
  enc_layer_norm_epsilon :: real
  enc_num_vision_tokens_per_image :: int
  enc_dtype_policy :: dtype_arg

text \<open>
  \<^verbatim>\<open>Gemma3VisionEncoder.__init__\<close>, in the order of the source: the override of the
  precision, the symbolic input, then the three sublayers, each constructed and called
  on the symbolic output of the one before (the library builds a layer on its first
  call and takes the shape of the result from the layer's \<^verbatim>\<open>compute_output_shape\<close>),
  the initialisation of the model, the attributes, the precision policy. The block is
  constructed without \<^verbatim>\<open>layer_norm_epsilon\<close>, so with the default \<^verbatim>\<open>1e-6\<close>.
\<close>

definition Gemma3VisionEncoder_init ::
  "(library_call \<Rightarrow> bool) \<Rightarrow> int \<Rightarrow> int \<Rightarrow> int \<Rightarrow> int \<Rightarrow> int \<Rightarrow> int \<Rightarrow> int \<Rightarrow> int \<Rightarrow> real
     \<Rightarrow> dtype_arg \<Rightarrow> error + Gemma3VisionEncoder" where
  "Gemma3VisionEncoder_init lib image_size patch_size num_heads hidden_dim num_layers
       intermediate_dim output_dim pool_size layer_norm_epsilon dtype0 =
     (let dtype = (if dtype_eq_str dtype0 ''bfloat16'' then DStr ''float32'' else dtype0);
          image_input = [None, None, Some image_size, Some image_size, Some 3]
      in
      library lib [Input [None, Some image_size, Some image_size, Some 3]]
      (case Gemma3VisionEncoderBlock_init lib patch_size image_size hidden_dim num_layers
             num_heads intermediate_dim (1 / 10 ^ 6) dtype of
        Inl e \<Rightarrow> Inl e
      | Inr blk0 \<Rightarrow>
      (case Gemma3VisionEncoderBlock_build lib blk0 image_input of
        Inl e \<Rightarrow> Inl e
      | Inr blk \<Rightarrow>
      (case Gemma3VisionEncoderBlock_compute_output_shape blk (Some image_input) of
        Inl e \<Rightarrow> Inl e
      | Inr s1 \<Rightarrow>
      (case Gemma3VisionAveragePooling_init lib image_size patch_size pool_size dtype of
        Inl e \<Rightarrow> Inl e
      | Inr pool0 \<Rightarrow>
      (case Gemma3VisionAveragePooling_build lib pool0 of
        Inl e \<Rightarrow> Inl e
      | Inr pool \<Rightarrow>
      (let s2 = Gemma3VisionAveragePooling_compute_output_shape pool s1 in
       case Gemma3VisionOutput_init lib output_dim layer_norm_epsilon
              (RandomNormal 0 (1 / 100)) dtype of
        Inl e \<Rightarrow> Inl e
      | Inr out0 \<Rightarrow>
      (case Gemma3VisionOutput_build lib out0 s2 of
        Inl e \<Rightarrow> Inl e
      | Inr out \<Rightarrow>
      (let s3 = Gemma3VisionOutput_compute_output_shape out s2 in
       library lib [ModelInit image_input s3]
       (case floordiv image_size patch_size of
         Inl e \<Rightarrow> Inl e
       | Inr w \<Rightarrow>
       (case floordiv (w ^ 2) (pool_size ^ 2) of
         Inl e \<Rightarrow> Inl e
       | Inr n \<Rightarrow>
           library lib [PolicyGet dtype]
           (Inr \<lparr> enc_image_encoder = blk,
                 enc_pooling = pool,
                 enc_vision_output_encoder = out,
                 enc_output_shape = s3,
                 enc_image_size = image_size,
                 enc_patch_size = patch_size,
                 enc_num_heads = num_heads,
                 enc_hidden_dim = hidden_dim,
                 enc_num_layers = num_layers,
                 enc_intermediate_dim = intermediate_dim,
                 enc_output_dim = output_dim,
                 enc_pool_size = pool_size,
                 enc_layer_norm_epsilon = layer_norm_epsilon,
                 enc_num_vision_tokens_per_image = n,
                 enc_dtype_policy = dtype_policy dtype \<rparr>))))))))))))"

definition Gemma3VisionEncoder_get_config ::
  "Gemma3VisionEncoder \<Rightarrow> config \<Rightarrow> config option" where
  "Gemma3VisionEncoder_get_config m super_config =
     (let config = dict_update super_config
        [(''num_heads'', IntV (enc_num_heads m)),
         (''hidden_dim'', IntV (enc_hidden_dim m)),
         (''num_layers'', IntV (enc_num_layers m)),
         (''intermediate_dim'', IntV (enc_intermediate_dim m)),
         (''output_dim'', IntV (enc_output_dim m)),
         (''pool_size'', IntV (enc_pool_size m)),
         (''image_size'', IntV (enc_image_size m)),
         (''patch_size'', IntV (enc_patch_size m)),
         (''layer_norm_epsilon'', FloatV (enc_layer_norm_epsilon m))]
      in Some config)"

text \<open>The precision every sublayer of a constructed encoder was given.\<close>

fun opt_list :: "'a option \<Rightarrow> 'a list" where
  "opt_list None = []"
| "opt_list (Some x) = [x]"

definition encoder_layer_dtypes :: "Gemma3VisionEncoderLayer \<Rightarrow> dtype_arg list" where
  "encoder_layer_dtypes l =
     el_dtype l #
     (case el_attn l of
        None \<Rightarrow> []
      | Some a \<Rightarrow>
          [attn_dtype a, keras_dtype (attn_dropout_layer a), keras_dtype (attn_query_proj a),
           keras_dtype (attn_key_proj a), keras_dtype (attn_value_proj a),
           keras_dtype (attn_out_proj a)]) @
     map keras_dtype
       (concat (map opt_list
          [el_layer_norm_1 l, el_mlp_dense_1 l, el_mlp_dense_2 l, el_layer_norm_2 l]))"

definition embedding_dtypes :: "Gemma3VisionEmbedding \<Rightarrow> dtype_arg list" where
  "embedding_dtypes e =
     [emb_dtype e, keras_dtype (emb_patch_embedding e), keras_dtype (emb_position_embedding e)]"

definition block_dtypes :: "Gemma3VisionEncoderBlock \<Rightarrow> dtype_arg list" where
  "block_dtypes b =
     blk_dtype b # keras_dtype (blk_encoder_layer_norm b) #
     embedding_dtypes (blk_vision_embeddings b) @
     concat (map encoder_layer_dtypes (blk_resblocks b))"

definition pooling_dtypes :: "Gemma3VisionAveragePooling \<Rightarrow> dtype_arg list" where
  "pooling_dtypes p = pool_dtype p # map keras_dtype (opt_list (pool_average_pooling p))"

definition output_dtypes :: "Gemma3VisionOutput \<Rightarrow> dtype_arg list" where
  "output_dtypes l =
     out_dtype l #
     map keras_dtype
       (opt_list (out_vision_soft_embedding_norm l) @ opt_list (out_vision_input_projection l))"

definition encoder_dtypes :: "Gemma3VisionEncoder \<Rightarrow> dtype_arg list" where
  "encoder_dtypes m =
     block_dtypes (enc_image_encoder m) @ pooling_dtypes (enc_pooling m) @
     output_dtypes (enc_vision_output_encoder m) @ [enc_dtype_policy m]"

section \<open>Tensors and the forward computation\<close>

text \<open>
  A tensor is a nested list of numbers, outermost axis first. The numbers are
  \<^typ>\<open>real\<close>: the model computes with exact arithmetic and says nothing about the
  rounding of floating-point formats. A nested list cannot hold the sizes of the axes
  that follow an axis of size 0, so the theorems below are about tensors without empty
  axes.

  The operations of the numeric library (\<^verbatim>\<open>ops.matmul\<close>, \<^verbatim>\<open>ops.add\<close>,
  \<^verbatim>\<open>ops.reshape\<close>, ...) raise on shapes that do not fit; in the model such a call
  returns \<^term>\<open>None\<close>.
\<close>

type_synonym vec = "real list"
type_synonym mat = "real list list"
type_synonym tensor3 = "real list list list"
type_synonym tensor4 = "real list list list list"

definition has_shape1 :: "nat \<Rightarrow> 'a list \<Rightarrow> bool" where
  "has_shape1 d v = (length v = d)"

definition has_shape2 :: "nat \<Rightarrow> nat \<Rightarrow> 'a list list \<Rightarrow> bool" where
  "has_shape2 s d m = (length m = s \<and> list_all (has_shape1 d) m)"

definition has_shape3 :: "nat \<Rightarrow> nat \<Rightarrow> nat \<Rightarrow> 'a list list list \<Rightarrow> bool" where
  "has_shape3 n s d t = (length t = n \<and> list_all (has_shape2 s d) t)"

definition has_shape4 :: "nat \<Rightarrow> nat \<Rightarrow> nat \<Rightarrow> nat \<Rightarrow> 'a list list list list \<Rightarrow> bool" where
  "has_shape4 n h s d t = (length t = n \<and> list_all (has_shape3 h s d) t)"

text \<open>\<^verbatim>\<open>ops.shape(t)[1]\<close>: the size of the second axis.\<close>

definition ncols :: "'a list list \<Rightarrow> nat" where
  "ncols m = (case m of [] \<Rightarrow> 0 | r # _ \<Rightarrow> length r)"

text \<open>All results, or \<^term>\<open>None\<close> as soon as one of them is.\<close>

fun sequence :: "'a option list \<Rightarrow> 'a list option" where
  "sequence [] = Some []"
| "sequence (None # xs) = None"
| "sequence (Some x # xs) = (case sequence xs of None \<Rightarrow> None | Some ys \<Rightarrow> Some (x # ys))"

text \<open>
  Broadcasting of a binary operation along one axis, as the numeric library does it:
  axes of equal size are combined position by position, an axis of size 1 is repeated
  along the other, and any other pair of sizes is an error.
\<close>

definition bcast :: "('a \<Rightarrow> 'b \<Rightarrow> 'c option) \<Rightarrow> 'a list \<Rightarrow> 'b list \<Rightarrow> 'c list option" where
  "bcast f xs ys =
     (if length xs = length ys then sequence (map2 f xs ys)
      else if length xs = 1 then sequence (map (f (hd xs)) ys)
      else if length ys = 1 then sequence (map (\<lambda>x. f x (hd ys)) xs)
      else None)"

definition add0 :: "real \<Rightarrow> real \<Rightarrow> real option" where
  "add0 x y = Some (x + y)"

definition add3 :: "tensor3 \<Rightarrow> tensor3 \<Rightarrow> tensor3 option" where
  "add3 = bcast (bcast (bcast add0))"

definition add4 :: "tensor4 \<Rightarrow> tensor4 \<Rightarrow> tensor4 option" where
  "add4 = bcast (bcast (bcast (bcast add0)))"

definition dot :: "vec \<Rightarrow> vec \<Rightarrow> real" where
  "dot u v = sum_list (map2 (*) u v)"

text \<open>Swapping the two axes of a matrix.\<close>

definition transpose2 :: "'a list list \<Rightarrow> 'a list list" where
  "transpose2 m = map (\<lambda>j. map (\<lambda>r. r ! j) m) [0 ..< ncols m]"

text \<open>
  The product of an \<open>m \<times> k\<close> and a \<open>k \<times> n\<close> matrix; the inner sizes have to agree.
\<close>

definition matmul2 :: "mat \<Rightarrow> mat \<Rightarrow> mat option" where
  "matmul2 a b =
     (if list_all (\<lambda>r. length r = length b) a
      then Some (map (\<lambda>r. map (dot r) (transpose2 b)) a)
      else None)"

text \<open>\<^verbatim>\<open>ops.matmul\<close> on tensors of rank 4: the leading two axes are broadcast.\<close>

definition matmul4 :: "tensor4 \<Rightarrow> tensor4 \<Rightarrow> tensor4 option" where
  "matmul4 = bcast (bcast matmul2)"

text \<open>
  \<^verbatim>\<open>ops.reshape\<close>: the elements in row-major order, regrouped to the new shape; the
  number of elements has to be the same.
\<close>

definition split_into :: "nat \<Rightarrow> nat \<Rightarrow> 'a list \<Rightarrow> 'a list list" where
  "split_into k n xs = map (\<lambda>i. take n (drop (i * n) xs)) [0 ..< k]"

definition flat3 :: "'a list list list \<Rightarrow> 'a list" where
  "flat3 t = concat (concat t)"

definition flat4 :: "'a list list list list \<Rightarrow> 'a list" where
  "flat4 t = concat (concat (concat t))"

definition reshape3 :: "nat \<Rightarrow> nat \<Rightarrow> nat \<Rightarrow> 'a list \<Rightarrow> 'a list list list option" where
  "reshape3 a b c xs =
     (if length xs = a * b * c
      then Some (map (split_into b c) (split_into a (b * c) xs))
      else None)"

definition reshape4 ::
  "nat \<Rightarrow> nat \<Rightarrow> nat \<Rightarrow> nat \<Rightarrow> 'a list \<Rightarrow> 'a list list list list option" where
  "reshape4 a b c d xs =
     (if length xs = a * b * c * d
      then Some (map (\<lambda>ys. map (split_into c d) (split_into b (c * d) ys))
                   (split_into a (b * c * d) xs))
      else None)"

text \<open>\<^verbatim>\<open>ops.softmax(t, axis=-1)\<close> on one row.\<close>

definition softmax :: "vec \<Rightarrow> vec" where
  "softmax v = map (\<lambda>x. exp x / sum_list (map exp v)) v"

subsection \<open>Library layers with their weights\<close>

text \<open>
  \<^verbatim>\<open>keras.layers.Dense\<close> with a bias: \<^verbatim>\<open>matmul(inputs, kernel) + bias\<close> on the last
  axis. The kernel has one row for each input feature.
\<close>

record dense =
  dense_kernel :: mat
  dense_bias :: vec

definition dense_shape :: "nat \<Rightarrow> nat \<Rightarrow> dense \<Rightarrow> bool" where
  "dense_shape i u w = (has_shape2 i u (dense_kernel w) \<and> length (dense_bias w) = u)"

definition Dense_call :: "dense \<Rightarrow> tensor3 \<Rightarrow> tensor3 option" where
  "Dense_call w x =
     sequence (map (\<lambda>m. map_option (map (\<lambda>r. map2 (+) r (dense_bias w))) (matmul2 m (dense_kernel w))) x)"

text \<open>
  \<^verbatim>\<open>keras.layers.LayerNormalization\<close> over the last axis: mean and variance of each
  vector, then scale \<open>gamma\<close> and offset \<open>beta\<close>.
\<close>

record layer_norm =
  gamma :: vec
  beta :: vec
  epsilon :: real

definition mean :: "vec \<Rightarrow> real" where
  "mean v = sum_list v / real (length v)"

definition variance :: "vec \<Rightarrow> real" where
  "variance v = mean (map (\<lambda>x. (x - mean v) ^ 2) v)"

definition layer_norm_vec :: "layer_norm \<Rightarrow> vec \<Rightarrow> vec" where
  "layer_norm_vec p v =
     map2 (+) (map2 (*) (map (\<lambda>x. (x - mean v) / sqrt (variance v + epsilon p)) v) (gamma p))
       (beta p)"

definition LayerNormalization_call :: "layer_norm \<Rightarrow> tensor3 \<Rightarrow> tensor3 option" where
  "LayerNormalization_call p x =
     (if list_all (list_all (\<lambda>v. length v = length (gamma p))) x
      then Some (map (map (layer_norm_vec p)) x)
      else None)"

text \<open>\<^verbatim>\<open>keras.activations.gelu(x, approximate=True)\<close>.\<close>

definition gelu_tanh :: "real \<Rightarrow> real" where
  "gelu_tanh x = 0.5 * x * (1 + tanh (sqrt (2 / pi) * (x + 0.044715 * x ^ 3)))"

text \<open>
  \<^verbatim>\<open>keras.layers.Dropout\<close>: the inputs unchanged unless \<^verbatim>\<open>training\<close> holds and the rate
  is positive; then the library's random dropout, which is the parameter \<open>rnd\<close>.
\<close>

definition Dropout_call ::
  "real \<Rightarrow> (tensor4 \<Rightarrow> tensor4) \<Rightarrow> tensor4 \<Rightarrow> bool \<Rightarrow> tensor4" where
  "Dropout_call rate rnd inputs training = (if training \<and> 0 < rate then rnd inputs else inputs)"

subsection \<open>Gemma3VisionAttention.call\<close>

record attention_weights =
  w_query :: dense
  w_key :: dense
  w_value :: dense
  w_out :: dense

text \<open>
  The shapes of the weights as \<^verbatim>\<open>Gemma3VisionAttention.build\<close> creates them: every
  projection is built for inputs \<^verbatim>\<open>[None, None, hidden_dim]\<close> and has
  \<^verbatim>\<open>hidden_dim\<close> units.
\<close>

definition attention_weights_shape :: "nat \<Rightarrow> attention_weights \<Rightarrow> bool" where
  "attention_weights_shape hidden_dim w =
     (dense_shape hidden_dim hidden_dim (w_query w) \<and>
      dense_shape hidden_dim hidden_dim (w_key w) \<and>
      dense_shape hidden_dim hidden_dim (w_value w) \<and>
      dense_shape hidden_dim hidden_dim (w_out w))"

text \<open>
  \<^verbatim>\<open>_transpose_for_scores(tensor, batch_size)\<close>: reshape to
  \<^verbatim>\<open>(batch_size, seq_len, num_heads, head_dim)\<close>, then swap the two middle axes.
\<close>

definition transpose_for_scores ::
  "Gemma3VisionAttention \<Rightarrow> tensor3 \<Rightarrow> nat \<Rightarrow> tensor4 option" where
  "transpose_for_scores a tensor batch_size =
     (let seq_len = ncols tensor in
      map_option (map transpose2)
        (reshape4 batch_size seq_len (nat (attn_num_heads a)) (nat (attn_head_dim a))
           (flat3 tensor)))"

text \<open>
  \<^verbatim>\<open>call(x, attention_mask=None, training=False)\<close>, statement by statement. The result
  is the pair \<^verbatim>\<open>(attn_output, attention_probs)\<close>.
\<close>

definition Gemma3VisionAttention_call ::
  "Gemma3VisionAttention \<Rightarrow> attention_weights \<Rightarrow> (tensor4 \<Rightarrow> tensor4) \<Rightarrow>
     tensor3 \<Rightarrow> tensor4 option \<Rightarrow> bool \<Rightarrow> (tensor3 \<times> tensor4) option" where
  "Gemma3VisionAttention_call a w rnd x attention_mask training =
     do {
       let batch_size = length x;
       mixed_query_layer \<leftarrow> Dense_call (w_query w) x;
       mixed_key_layer \<leftarrow> Dense_call (w_key w) x;
       mixed_value_layer \<leftarrow> Dense_call (w_value w) x;
       query_layer \<leftarrow> transpose_for_scores a mixed_query_layer batch_size;
       key_layer \<leftarrow> transpose_for_scores a mixed_key_layer batch_size;
       value_layer \<leftarrow> transpose_for_scores a mixed_value_layer batch_size;
       scores0 \<leftarrow> matmul4 query_layer (map (map transpose2) key_layer);
       let dk = sqrt (real_of_int (attn_head_dim a));
       let scores1 = map (map (map (map (\<lambda>s. s / dk)))) scores0;
       attention_scores \<leftarrow>
         (case attention_mask of None \<Rightarrow> Some scores1 | Some am \<Rightarrow> add4 scores1 am);
       let attention_probs = map (map (map softmax)) attention_scores;
       let dropout_attention_probs =
             Dropout_call (attn_dropout a) rnd attention_probs training;
       attn_output0 \<leftarrow> matmul4 dropout_attention_probs value_layer;
       let attn_output1 = map transpose2 attn_output0;
       let seq_len_q = ncols attn_output1;
       attn_output2 \<leftarrow>
         reshape3 batch_size seq_len_q (nat (attn_hidden_dim a)) (flat4 attn_output1);
       attn_output \<leftarrow> Dense_call (w_out w) attn_output2;
       Some (attn_output, attention_probs)
     }"

subsection \<open>Gemma3VisionEncoderLayer.call\<close>

record encoder_layer_weights =
  w_attn :: attention_weights
  w_layer_norm_1 :: layer_norm
  w_mlp_dense_1 :: dense
  w_mlp_dense_2 :: dense
  w_layer_norm_2 :: layer_norm

text \<open>
  The shapes of the weights as \<^verbatim>\<open>Gemma3VisionEncoderLayer.build\<close> creates them, for
  \<^verbatim>\<open>hidden_dim = input_shape[-1]\<close>.
\<close>

definition layer_norm_shape :: "nat \<Rightarrow> layer_norm \<Rightarrow> bool" where
  "layer_norm_shape d p = (length (gamma p) = d \<and> length (beta p) = d)"

definition encoder_layer_weights_shape :: "nat \<Rightarrow> nat \<Rightarrow> encoder_layer_weights \<Rightarrow> bool" where
  "encoder_layer_weights_shape hidden_dim intermediate_dim w =
     (attention_weights_shape hidden_dim (w_attn w) \<and>
      layer_norm_shape hidden_dim (w_layer_norm_1 w) \<and>
      dense_shape hidden_dim intermediate_dim (w_mlp_dense_1 w) \<and>
      dense_shape intermediate_dim hidden_dim (w_mlp_dense_2 w) \<and>
      layer_norm_shape hidden_dim (w_layer_norm_2 w))"

text \<open>
  \<^verbatim>\<open>compute_attention(x, mask)\<close>: the first component of the attention layer's
  result; the cast of the mask to the precision of \<open>x\<close> changes no value. The call
  passes no \<^verbatim>\<open>training\<close> argument, so the default \<^verbatim>\<open>False\<close>. The attribute
  \<^verbatim>\<open>self.attn\<close> exists only after \<^verbatim>\<open>build\<close>.
\<close>

definition compute_attention ::
  "Gemma3VisionEncoderLayer \<Rightarrow> encoder_layer_weights \<Rightarrow> (tensor4 \<Rightarrow> tensor4) \<Rightarrow>
     tensor3 \<Rightarrow> tensor4 option \<Rightarrow> tensor3 option" where
  "compute_attention l w rnd x mask_arg =
     (case el_attn l of
        None \<Rightarrow> None
      | Some a \<Rightarrow> map_option fst (Gemma3VisionAttention_call a (w_attn w) rnd x mask_arg False))"

definition Gemma3VisionEncoderLayer_call ::
  "Gemma3VisionEncoderLayer \<Rightarrow> encoder_layer_weights \<Rightarrow> (tensor4 \<Rightarrow> tensor4) \<Rightarrow>
     tensor3 \<Rightarrow> tensor4 option \<Rightarrow> tensor3 option" where
  "Gemma3VisionEncoderLayer_call l w rnd x0 mask_arg =
     do {
       let residual0 = x0;
       x1 \<leftarrow> LayerNormalization_call (w_layer_norm_1 w) x0;
       x2 \<leftarrow> compute_attention l w rnd x1 mask_arg;
       x3 \<leftarrow> add3 x2 residual0;
       let residual = x3;
       n2 \<leftarrow> LayerNormalization_call (w_layer_norm_2 w) residual;
       x4 \<leftarrow> Dense_call (w_mlp_dense_1 w) n2;
       let x5 = map (map (map gelu_tanh)) x4;
       x6 \<leftarrow> Dense_call (w_mlp_dense_2 w) x5;
       add3 residual x6
     }"

subsection \<open>The attention layer as the specification states it\<close>

text \<open>
  The specification's description of the attention layer, for one element of the
  batch, a matrix \<open>m\<close> with one row for each token: learned linear projections to
  queries, keys and values; a split of each into \<open>num_heads\<close> groups of \<open>head_dim\<close>
  columns; the scores \<open>(Q \<cdot> K\<^sup>T) / sqrt(head_dim)\<close> of each head, plus the mask when
  one is given; the softmax of each row; the products with the values, recombined
  token by token; the output projection.
\<close>

definition mm :: "mat \<Rightarrow> mat \<Rightarrow> mat" where
  "mm a b = map (\<lambda>r. map (dot r) (transpose2 b)) a"

definition dense_apply :: "dense \<Rightarrow> mat \<Rightarrow> mat" where
  "dense_apply w m = map (\<lambda>r. map2 (+) r (dense_bias w)) (mm m (dense_kernel w))"

definition split_heads :: "nat \<Rightarrow> nat \<Rightarrow> mat \<Rightarrow> mat list" where
  "split_heads num_heads head_dim m =
     map (\<lambda>h. map (\<lambda>row. take head_dim (drop (h * head_dim) row)) m) [0 ..< num_heads]"

definition scaled_scores :: "nat \<Rightarrow> mat \<Rightarrow> mat \<Rightarrow> mat" where
  "scaled_scores head_dim q k = map (map (\<lambda>s. s / sqrt (real head_dim))) (mm q (transpose2 k))"

definition merge_heads :: "nat \<Rightarrow> mat list \<Rightarrow> mat" where
  "merge_heads seq outs = map (\<lambda>i. concat (map (\<lambda>out. out ! i) outs)) [0 ..< seq]"

definition attention_spec ::
  "nat \<Rightarrow> nat \<Rightarrow> attention_weights \<Rightarrow> mat \<Rightarrow> mat option \<Rightarrow> mat \<times> mat list" where
  "attention_spec num_heads head_dim w m mask_matrix =
     (let q = split_heads num_heads head_dim (dense_apply (w_query w) m);
          k = split_heads num_heads head_dim (dense_apply (w_key w) m);
          v = split_heads num_heads head_dim (dense_apply (w_value w) m);
          scores = map2 (scaled_scores head_dim) q k;
          masked = (case mask_matrix of
                      None \<Rightarrow> scores
                    | Some mb \<Rightarrow> map (\<lambda>sc. map2 (map2 (+)) sc mb) scores);
          probs = map (map softmax) masked;
          outs = map2 mm probs v
      in (dense_apply (w_out w) (merge_heads (length m) outs), probs))"

text \<open>
  The mask of the data model has the shape \<open>(N, 1, seq, seq)\<close>: one matrix for each
  element of the batch, the same for every head.
\<close>

definition attention_spec_batch ::
  "nat \<Rightarrow> nat \<Rightarrow> attention_weights \<Rightarrow> tensor3 \<Rightarrow> tensor4 option \<Rightarrow> tensor3 \<times> tensor4" where
  "attention_spec_batch num_heads head_dim w x mask_arg =
     (let rs = (case mask_arg of
                  None \<Rightarrow> map (\<lambda>m. attention_spec num_heads head_dim w m None) x
                | Some am \<Rightarrow>
                    map2 (\<lambda>m mb. attention_spec num_heads head_dim w m (Some (hd mb))) x am)
      in (map fst rs, map snd rs))"

subsection \<open>The encoder layer as the specification states it\<close>

text \<open>
  \<open>x' = x + Attention(LayerNorm(x), mask)\<close>, then \<open>x'' = x' + MLP(LayerNorm(x'))\<close>, where
  the MLP is a dense layer to \<open>intermediate_dim\<close>, the GELU in its tanh approximation
  and a dense layer back to \<open>hidden_dim\<close>. The attention is the attended output of the
  attention layer as the specification states it; the sums are taken entry by entry,
  and the normalization vector by vector.
\<close>

definition layer_norm_spec :: "layer_norm \<Rightarrow> tensor3 \<Rightarrow> tensor3" where
  "layer_norm_spec p x = map (map (layer_norm_vec p)) x"

definition plus3 :: "tensor3 \<Rightarrow> tensor3 \<Rightarrow> tensor3" where
  "plus3 a b = map2 (map2 (map2 (+))) a b"

definition mlp_spec :: "encoder_layer_weights \<Rightarrow> tensor3 \<Rightarrow> tensor3" where
  "mlp_spec w t =
     map (dense_apply (w_mlp_dense_2 w))
       (map (map (map gelu_tanh)) (map (dense_apply (w_mlp_dense_1 w)) t))"

definition encoder_layer_spec ::
  "nat \<Rightarrow> nat \<Rightarrow> encoder_layer_weights \<Rightarrow> tensor3 \<Rightarrow> tensor4 option \<Rightarrow> tensor3" where
  "encoder_layer_spec num_heads head_dim w x mask_arg =
     (let x' = plus3 x (fst (attention_spec_batch num_heads head_dim (w_attn w)
                               (layer_norm_spec (w_layer_norm_1 w) x) mask_arg));
          x'' = plus3 x' (mlp_spec w (layer_norm_spec (w_layer_norm_2 w) x'))
      in x'')"

subsection \<open>Notions for the statements and proofs\<close>



definition scores_of :: "nat \<Rightarrow> nat \<Rightarrow> attention_weights \<Rightarrow> tensor3 \<Rightarrow> tensor4" where
  "scores_of h d w x =
     map (\<lambda>m. map2 (scaled_scores d) (split_heads h d (dense_apply (w_query w) m))
                (split_heads h d (dense_apply (w_key w) m))) x"

definition values_of :: "nat \<Rightarrow> nat \<Rightarrow> attention_weights \<Rightarrow> tensor3 \<Rightarrow> tensor4" where
  "values_of h d w x = map (\<lambda>m. split_heads h d (dense_apply (w_value w) m)) x"

definition output_of :: "nat \<Rightarrow> attention_weights \<Rightarrow> tensor4 \<Rightarrow> tensor4 \<Rightarrow> tensor3" where
  "output_of s w dp v =
     map2 (\<lambda>pb vb. dense_apply (w_out w) (merge_heads s (map2 mm pb vb))) dp v"

definition add_mask :: "tensor4 \<Rightarrow> tensor4 \<Rightarrow> tensor4" where
  "add_mask sc am = map2 (\<lambda>scb mb. map (\<lambda>scm. map2 (map2 (+)) scm (hd mb)) scb) sc am"

section \<open>Properties of construction and configuration\<close>

lemmas init_defs =
  Gemma3VisionEncoder_init_def Gemma3VisionEncoderBlock_init_def Gemma3VisionEmbedding_init_def
  Gemma3VisionEncoderLayer_init_def Gemma3VisionEncoderBlock_build_def
  Gemma3VisionEmbedding_build_def Gemma3VisionEncoderLayer_build_def
  Gemma3VisionAttention_init_def Gemma3VisionAttention_build_def
  Gemma3VisionEncoderBlock_compute_output_shape_def
  Gemma3VisionAveragePooling_init_def Gemma3VisionAveragePooling_build_def
  Gemma3VisionOutput_init_def Gemma3VisionOutput_build_def
  library_def floordiv_def float_overflow_def known_dtype_def Let_def

lemma library_Inr: "library lib cs r = Inr x \<longleftrightarrow> list_all lib cs \<and> r = Inr x"
  by (simp add: library_def)

lemma float_overflow_bound:
  assumes "\<bar>n\<bar> < 2 ^ 1023"
  shows "\<not> float_overflow n"
proof -
  have "(2::int) ^ 970 \<le> 2 ^ 1023" by (rule power_increasing) simp_all
  moreover have "(2::int) ^ 1024 = 2 * 2 ^ 1023" by simp
  ultimately have "(2::int) ^ 1023 \<le> 2 ^ 1024 - 2 ^ 970" by linarith
  with assms show ?thesis unfolding float_overflow_def by linarith
qed

lemma dvd_quotient_bound:
  fixes h n :: int
  assumes "0 < h" and "n dvd h"
  shows "h div n \<noteq> 0" and "\<bar>h div n\<bar> \<le> h" and "(h div n) * n = h"
proof -
  from assms obtain k where k: "h = n * k" by (auto simp add: dvd_def)
  with assms(1) have n0: "n \<noteq> 0" and k0: "k \<noteq> 0" by auto
  have q: "h div n = k" using k n0 by simp
  show "h div n \<noteq> 0" using q k0 by simp
  show "(h div n) * n = h" using q k by simp
  have "1 \<le> \<bar>n\<bar>" using n0 by simp
  then have "\<bar>k\<bar> * 1 \<le> \<bar>k\<bar> * \<bar>n\<bar>" by (intro mult_left_mono) simp_all
  also have "\<dots> = \<bar>h\<bar>" using k by (simp add: abs_mult mult.commute)
  finally show "\<bar>h div n\<bar> \<le> h" using q assms(1) by simp
qed

text \<open>
  Claim C7, amended: for \<^verbatim>\<open>0 < hidden_dim < 2 ** 1023\<close> and arguments for which the
  library performs the calls of the constructor (the base class, the dropout layer,
  the four projections), constructing the attention layer fails exactly when
  \<^verbatim>\<open>hidden_dim\<close> is not divisible by \<^verbatim>\<open>num_heads\<close>, that is when \<^verbatim>\<open>num_heads\<close> is 0 or
  \<^verbatim>\<open>(hidden_dim // num_heads) * num_heads \<noteq> hidden_dim\<close>; when it is divisible,
  construction succeeds with \<^verbatim>\<open>head_dim = hidden_dim // num_heads\<close>.
\<close>

theorem attention_init_divisibility:
  assumes "0 < hidden_dim" and "hidden_dim < 2 ^ 1023"
    and "list_all lib
           [LayerInit dtype, New (Dropout dropout dtype ''dropout''),
            New (Dense hidden_dim True GlorotUniform dtype ''query_proj''),
            New (Dense hidden_dim True GlorotUniform dtype ''key_proj''),
            New (Dense hidden_dim True GlorotUniform dtype ''value_proj''),
            New (Dense hidden_dim True GlorotUniform dtype ''out_proj'')]"
  shows "(isl (Gemma3VisionAttention_init lib hidden_dim num_heads dropout dtype)
           \<longleftrightarrow> \<not> num_heads dvd hidden_dim)
       \<and> (\<not> num_heads dvd hidden_dim \<longleftrightarrow>
            num_heads = 0 \<or> (hidden_dim div num_heads) * num_heads \<noteq> hidden_dim)
       \<and> (num_heads dvd hidden_dim \<longrightarrow>
            (\<exists>a. Gemma3VisionAttention_init lib hidden_dim num_heads dropout dtype = Inr a
                 \<and> attn_head_dim a = hidden_dim div num_heads
                 \<and> attn_head_dim a * num_heads = hidden_dim))"
proof -
  have d: "num_heads dvd hidden_dim \<longleftrightarrow>
           num_heads \<noteq> 0 \<and> (hidden_dim div num_heads) * num_heads = hidden_dim"
    using assms(1) by (metis dvd_div_mult_self dvd_triv_right dvd_0_left_iff less_irrefl)
  have z: "hidden_dim div num_heads \<noteq> 0 \<and> \<not> float_overflow (hidden_dim div num_heads)"
    if "num_heads dvd hidden_dim"
  proof -
    have "\<bar>hidden_dim div num_heads\<bar> < 2 ^ 1023"
      using dvd_quotient_bound(2) [OF assms(1) that] assms(2) by linarith
    then show ?thesis
      using dvd_quotient_bound(1) [OF assms(1) that] float_overflow_bound by blast
  qed
  show ?thesis
    using d z assms(3)
    by (auto simp add: Gemma3VisionAttention_init_def floordiv_def library_def)
qed

text \<open>
  Witness for C7: \<^verbatim>\<open>hidden_dim=8\<close> with 2 heads constructs with \<^verbatim>\<open>head_dim=4\<close>, and
  with 3 heads fails.
\<close>

theorem attention_init_divisibility_witness:
  "(0::int) < 8 \<and> (8::int) < 2 ^ 1023
   \<and> list_all keras_accepts
        [LayerInit DNone, New (Dropout 0 DNone ''dropout''),
         New (Dense 8 True GlorotUniform DNone ''query_proj''),
         New (Dense 8 True GlorotUniform DNone ''key_proj''),
         New (Dense 8 True GlorotUniform DNone ''value_proj''),
         New (Dense 8 True GlorotUniform DNone ''out_proj'')]
   \<and> \<not> isl (Gemma3VisionAttention_init keras_accepts 8 2 0 DNone)
   \<and> attn_head_dim (projr (Gemma3VisionAttention_init keras_accepts 8 2 0 DNone)) = 4
   \<and> isl (Gemma3VisionAttention_init keras_accepts 8 3 0 DNone)"
proof -
  have b: "(0::int) < 8" "(8::int) < 2 ^ 1023" by simp_all
  have l: "list_all keras_accepts
        [LayerInit DNone, New (Dropout 0 DNone ''dropout''),
         New (Dense 8 True GlorotUniform DNone ''query_proj''),
         New (Dense 8 True GlorotUniform DNone ''key_proj''),
         New (Dense 8 True GlorotUniform DNone ''value_proj''),
         New (Dense 8 True GlorotUniform DNone ''out_proj'')]"
    by (simp add: known_dtype_def)
  show ?thesis
    using b l attention_init_divisibility [OF b l, of 2] attention_init_divisibility [OF b l, of 3]
    by auto
qed

text \<open>
  Claim C7, as stated, fails at \<^verbatim>\<open>hidden_dim=0, num_heads=1\<close>: 0 is divisible by 1 and
  \<^verbatim>\<open>(0 // 1) * 1 == 0\<close>, yet the construction raises (\<^verbatim>\<open>0 ** -0.5\<close>).
\<close>

theorem attention_init_zero_hidden_dim_counterexample:
  "Gemma3VisionAttention_init keras_accepts 0 1 0 DNone = Inl ZeroDivisionError
   \<and> (1::int) dvd 0 \<and> (0 div 1) * 1 = (0::int)"
  by (simp add: init_defs)

lemma block_build_fields:
  "Gemma3VisionEncoderBlock_build lib b0 s = Inr b \<Longrightarrow>
     blk_patch_size b = blk_patch_size b0 \<and> blk_hidden_dim b = blk_hidden_dim b0
     \<and> blk_vision_embeddings b = blk_vision_embeddings b0
     \<and> blk_dtype b = blk_dtype b0 \<and> blk_encoder_layer_norm b = blk_encoder_layer_norm b0
     \<and> build_resblocks lib (blk_resblocks b0) (blk_hidden_dim b0) = Inr (blk_resblocks b)"
  by (auto simp add: Gemma3VisionEncoderBlock_build_def Gemma3VisionEmbedding_build_def
      library_def split: sum.splits if_splits)

lemma block_init_fields:
  "Gemma3VisionEncoderBlock_init lib ps im h nl nh idim eps d = Inr b \<Longrightarrow>
     ps \<noteq> 0 \<and> blk_patch_size b = ps \<and> blk_hidden_dim b = h \<and> blk_dtype b = d
     \<and> keras_dtype (blk_encoder_layer_norm b) = d
     \<and> emb_num_patches (blk_vision_embeddings b) = (im div ps) ^ 2
     \<and> emb_dtype (blk_vision_embeddings b) = d
     \<and> keras_dtype (emb_patch_embedding (blk_vision_embeddings b)) = d
     \<and> keras_dtype (emb_position_embedding (blk_vision_embeddings b)) = d
     \<and> collect (map (\<lambda>i. Gemma3VisionEncoderLayer_init lib nh idim (1 / 10 ^ 6) d
                             (''encoder_block_'' @ str_nat i)) [0 ..< nat nl])
         = Inr (blk_resblocks b)"
  by (auto simp add: Gemma3VisionEncoderBlock_init_def Gemma3VisionEmbedding_init_def
      library_def floordiv_def Let_def split: sum.splits if_splits)

lemma pooling_init_fields:
  "Gemma3VisionAveragePooling_init lib im ps pl d = Inr p \<Longrightarrow>
     ps \<noteq> 0 \<and> pl \<noteq> 0 \<and> pool_width p = im div ps
     \<and> pool_reduced_width p = (im div ps) div pl \<and> pool_dtype p = d
     \<and> pool_pool_size p = pl \<and> pool_average_pooling p = None"
  by (auto simp add: Gemma3VisionAveragePooling_init_def library_def floordiv_def
      split: sum.splits if_splits)

lemma pooling_build_fields:
  "Gemma3VisionAveragePooling_build lib p0 = Inr p \<Longrightarrow>
     pool_width p = pool_width p0 \<and> pool_reduced_width p = pool_reduced_width p0
     \<and> pool_dtype p = pool_dtype p0
     \<and> pool_average_pooling p
         = Some (AveragePooling2D (pool_pool_size p0) (pool_pool_size p0)
                   (dtype_policy (pool_dtype p0)) ''average_pooling'')"
  by (auto simp add: Gemma3VisionAveragePooling_build_def library_def Let_def split: if_splits)

lemma output_fields:
  "Gemma3VisionOutput_init lib od eps ki d = Inr o0 \<Longrightarrow>
   Gemma3VisionOutput_build lib o0 s = Inr out \<Longrightarrow>
     out_output_dim out = od \<and> out_dtype out = d
     \<and> out_vision_soft_embedding_norm out
         = Some (RMSNormalization eps (dtype_policy d) ''vision_soft_embedding_norm'')
     \<and> out_vision_input_projection out
         = Some (Dense od False ki (dtype_policy d) ''vision_input_projection'')"
  by (auto simp add: Gemma3VisionOutput_init_def Gemma3VisionOutput_build_def library_def Let_def
      split: if_splits)

text \<open>The stages of a successful construction of the encoder.\<close>

lemma encoder_init_stages:
  assumes "Gemma3VisionEncoder_init lib image_size patch_size num_heads hidden_dim num_layers
          intermediate_dim output_dim pool_size eps dtype0 = Inr m"
  obtains blk0 pool0 out0 where
    "Gemma3VisionEncoderBlock_init lib patch_size image_size hidden_dim num_layers num_heads
       intermediate_dim (1 / 10 ^ 6)
       (if dtype_eq_str dtype0 ''bfloat16'' then DStr ''float32'' else dtype0) = Inr blk0"
    and "Gemma3VisionEncoderBlock_build lib blk0
           [None, None, Some image_size, Some image_size, Some 3] = Inr (enc_image_encoder m)"
    and "Gemma3VisionAveragePooling_init lib image_size patch_size pool_size
       (if dtype_eq_str dtype0 ''bfloat16'' then DStr ''float32'' else dtype0) = Inr pool0"
    and "Gemma3VisionAveragePooling_build lib pool0 = Inr (enc_pooling m)"
    and "Gemma3VisionOutput_init lib output_dim eps (RandomNormal 0 (1 / 100))
       (if dtype_eq_str dtype0 ''bfloat16'' then DStr ''float32'' else dtype0) = Inr out0"
    and "Gemma3VisionOutput_build lib out0
           (Gemma3VisionAveragePooling_compute_output_shape (enc_pooling m)
              [None, Some ((image_size div patch_size) ^ 2), Some hidden_dim])
         = Inr (enc_vision_output_encoder m)"
    and "enc_output_shape m
         = Gemma3VisionOutput_compute_output_shape (enc_vision_output_encoder m)
             (Gemma3VisionAveragePooling_compute_output_shape (enc_pooling m)
                [None, Some ((image_size div patch_size) ^ 2), Some hidden_dim])"
    and "enc_num_vision_tokens_per_image m = (image_size div patch_size) ^ 2 div pool_size ^ 2"
    and "enc_dtype_policy m
         = dtype_policy (if dtype_eq_str dtype0 ''bfloat16'' then DStr ''float32'' else dtype0)"
proof -
  let ?dt = "if dtype_eq_str dtype0 ''bfloat16'' then DStr ''float32'' else dtype0"
  let ?inp = "[None, None, Some image_size, Some image_size, Some 3]"
  let ?s1 = "[None, Some ((image_size div patch_size) ^ 2), Some hidden_dim]"
  note a = assms [unfolded Gemma3VisionEncoder_init_def Let_def library_Inr]
  obtain blk0 where b0: "Gemma3VisionEncoderBlock_init lib patch_size image_size hidden_dim
      num_layers num_heads intermediate_dim (1 / 10 ^ 6) ?dt = Inr blk0"
    using a by (cases "Gemma3VisionEncoderBlock_init lib patch_size image_size hidden_dim
      num_layers num_heads intermediate_dim (1 / 10 ^ 6) ?dt") auto
  obtain blk where b: "Gemma3VisionEncoderBlock_build lib blk0 ?inp = Inr blk"
    using a b0 by (cases "Gemma3VisionEncoderBlock_build lib blk0 ?inp") auto
  have pz: "patch_size \<noteq> 0" and bp: "blk_patch_size blk = patch_size"
    and bh: "blk_hidden_dim blk = hidden_dim"
    using block_init_fields [OF b0] block_build_fields [OF b] by simp_all
  have s1: "Gemma3VisionEncoderBlock_compute_output_shape blk (Some ?inp) = Inr ?s1"
    using pz bp bh by (simp add: Gemma3VisionEncoderBlock_compute_output_shape_def floordiv_def)
  obtain pool0 where p0: "Gemma3VisionAveragePooling_init lib image_size patch_size pool_size ?dt
      = Inr pool0"
    using a b0 b s1
    by (cases "Gemma3VisionAveragePooling_init lib image_size patch_size pool_size ?dt") auto
  obtain pool where p: "Gemma3VisionAveragePooling_build lib pool0 = Inr pool"
    using a b0 b s1 p0 by (cases "Gemma3VisionAveragePooling_build lib pool0") auto
  have lz: "pool_size \<noteq> 0" using pooling_init_fields [OF p0] by simp
  let ?s2 = "Gemma3VisionAveragePooling_compute_output_shape pool ?s1"
  obtain out0 where o0: "Gemma3VisionOutput_init lib output_dim eps (RandomNormal 0 (1 / 100)) ?dt
      = Inr out0"
    using a b0 b s1 p0 p
    by (cases "Gemma3VisionOutput_init lib output_dim eps (RandomNormal 0 (1 / 100)) ?dt") auto
  obtain out where ou: "Gemma3VisionOutput_build lib out0 ?s2 = Inr out"
    using a b0 b s1 p0 p o0 by (cases "Gemma3VisionOutput_build lib out0 ?s2") auto
  have m: "enc_image_encoder m = blk \<and> enc_pooling m = pool \<and> enc_vision_output_encoder m = out
      \<and> enc_output_shape m = Gemma3VisionOutput_compute_output_shape out ?s2
      \<and> enc_num_vision_tokens_per_image m = (image_size div patch_size) ^ 2 div pool_size ^ 2
      \<and> enc_dtype_policy m = dtype_policy ?dt"
    using a b0 b s1 p0 p o0 ou pz lz
    by (auto simp add: floordiv_def library_Inr)
  show thesis
    using that [of blk0 pool0 out0] b0 b p0 p o0 ou m by simp
qed

lemma dtype_name_policy: "dtype_name (dtype_policy d) = dtype_name d"
  by (cases d) simp_all

lemma collect_Inr:
  "collect rs = Inr xs \<Longrightarrow> rs = map Inr xs"
  by (induction rs arbitrary: xs) (auto split: sum.splits)

lemma layer_init_dtype:
  "Gemma3VisionEncoderLayer_init lib nh idim eps d n = Inr l \<Longrightarrow> el_dtype l = d"
  by (auto simp add: Gemma3VisionEncoderLayer_init_def library_def split: if_splits)

lemma collect_layer_init_dtype:
  assumes "collect (map (\<lambda>i. Gemma3VisionEncoderLayer_init lib nh idim eps d (f i)) js) = Inr ls"
  shows "\<forall>l \<in> set ls. el_dtype l = d"
  using assms
proof (induction js arbitrary: ls)
  case Nil
  then show ?case by simp
next
  case (Cons j js)
  from Cons.prems obtain x xs where
    x: "Gemma3VisionEncoderLayer_init lib nh idim eps d (f j) = Inr x"
    and xs: "collect (map (\<lambda>i. Gemma3VisionEncoderLayer_init lib nh idim eps d (f i)) js) = Inr xs"
    and ls: "ls = x # xs"
    by (auto split: sum.splits)
  show ?case
    using layer_init_dtype [OF x] Cons.IH [OF xs] ls by simp
qed

lemma layer_build_dtypes:
  assumes "Gemma3VisionEncoderLayer_build lib l h = Inr l'"
  shows "list_all (\<lambda>x. dtype_name x = dtype_name (el_dtype l)) (encoder_layer_dtypes l')"
  using assms
  by (auto simp add: Gemma3VisionEncoderLayer_build_def Gemma3VisionAttention_init_def
      Gemma3VisionAttention_build_def library_def
      encoder_layer_dtypes_def Let_def dtype_name_policy
      split: sum.splits if_splits)

lemma build_resblocks_dtypes:
  assumes "build_resblocks lib ls h = Inr ls'" and "\<forall>l \<in> set ls. el_dtype l = d"
  shows "list_all (\<lambda>x. dtype_name x = dtype_name d) (concat (map encoder_layer_dtypes ls'))"
  using assms
proof (induction ls arbitrary: ls')
  case Nil
  then show ?case by simp
next
  case (Cons l ls)
  then show ?case
    using layer_build_dtypes [of lib l h]
    by (auto split: sum.splits)
qed

lemma encoder_init_dtypes:
  assumes "Gemma3VisionEncoder_init lib image_size patch_size num_heads hidden_dim num_layers
          intermediate_dim output_dim pool_size eps dtype0 = Inr m"
  shows "list_all (\<lambda>x. dtype_name x =
            dtype_name (if dtype_eq_str dtype0 ''bfloat16'' then DStr ''float32'' else dtype0))
          (encoder_dtypes m)"
proof -
  define dt where "dt = (if dtype_eq_str dtype0 ''bfloat16'' then DStr ''float32'' else dtype0)"
  from assms obtain blk0 pool0 out0 where
    b0: "Gemma3VisionEncoderBlock_init lib patch_size image_size hidden_dim num_layers num_heads
       intermediate_dim (1 / 10 ^ 6) dt = Inr blk0"
    and b: "Gemma3VisionEncoderBlock_build lib blk0
           [None, None, Some image_size, Some image_size, Some 3] = Inr (enc_image_encoder m)"
    and p0: "Gemma3VisionAveragePooling_init lib image_size patch_size pool_size dt = Inr pool0"
    and p: "Gemma3VisionAveragePooling_build lib pool0 = Inr (enc_pooling m)"
    and o0: "Gemma3VisionOutput_init lib output_dim eps (RandomNormal 0 (1 / 100)) dt = Inr out0"
    and ou: "Gemma3VisionOutput_build lib out0
           (Gemma3VisionAveragePooling_compute_output_shape (enc_pooling m)
              [None, Some ((image_size div patch_size) ^ 2), Some hidden_dim])
         = Inr (enc_vision_output_encoder m)"
    and pol: "enc_dtype_policy m = dtype_policy dt"
    unfolding dt_def by (rule encoder_init_stages)
  note bi = block_init_fields [OF b0]
  note bb = block_build_fields [OF b]
  have c: "collect (map (\<lambda>i. Gemma3VisionEncoderLayer_init lib num_heads intermediate_dim
                 (1 / 10 ^ 6) dt (''encoder_block_'' @ str_nat i)) [0 ..< nat num_layers])
           = Inr (blk_resblocks blk0)"
    using bi by simp
  have r: "\<forall>l \<in> set (blk_resblocks blk0). el_dtype l = dt"
    by (rule collect_layer_init_dtype [OF c])
  have rb: "list_all (\<lambda>x. dtype_name x = dtype_name dt)
              (concat (map encoder_layer_dtypes (blk_resblocks (enc_image_encoder m))))"
    using bb r by (auto intro: build_resblocks_dtypes)
  have bd: "list_all (\<lambda>x. dtype_name x = dtype_name dt) (block_dtypes (enc_image_encoder m))"
    using bi bb rb by (simp add: block_dtypes_def embedding_dtypes_def)
  have pd: "list_all (\<lambda>x. dtype_name x = dtype_name dt) (pooling_dtypes (enc_pooling m))"
    using pooling_init_fields [OF p0] pooling_build_fields [OF p]
    by (simp add: pooling_dtypes_def dtype_name_policy)
  have od: "list_all (\<lambda>x. dtype_name x = dtype_name dt)
              (output_dtypes (enc_vision_output_encoder m))"
    using output_fields [OF o0 ou] by (simp add: output_dtypes_def dtype_name_policy)
  show ?thesis
    using bd pd od pol unfolding dt_def [symmetric]
    by (simp add: encoder_dtypes_def dtype_name_policy)
qed

lemma encoder_init_Inr:
  assumes "Gemma3VisionEncoder_init lib image_size patch_size num_heads hidden_dim num_layers
          intermediate_dim output_dim pool_size eps dtype = Inr m"
  shows "patch_size \<noteq> 0 \<and> pool_size \<noteq> 0
     \<and> enc_num_vision_tokens_per_image m = (image_size div patch_size) ^ 2 div pool_size ^ 2
     \<and> enc_output_shape m =
         [None, Some ((image_size div patch_size) div pool_size * ((image_size div patch_size) div pool_size)),
          Some output_dim]
     \<and> emb_num_patches (blk_vision_embeddings (enc_image_encoder m)) = (image_size div patch_size) ^ 2
     \<and> pool_width (enc_pooling m) = image_size div patch_size
     \<and> pool_reduced_width (enc_pooling m) = (image_size div patch_size) div pool_size"
proof -
  from assms obtain blk0 pool0 out0 where
    b0: "Gemma3VisionEncoderBlock_init lib patch_size image_size hidden_dim num_layers num_heads
       intermediate_dim (1 / 10 ^ 6)
       (if dtype_eq_str dtype ''bfloat16'' then DStr ''float32'' else dtype) = Inr blk0"
    and b: "Gemma3VisionEncoderBlock_build lib blk0
           [None, None, Some image_size, Some image_size, Some 3] = Inr (enc_image_encoder m)"
    and p0: "Gemma3VisionAveragePooling_init lib image_size patch_size pool_size
       (if dtype_eq_str dtype ''bfloat16'' then DStr ''float32'' else dtype) = Inr pool0"
    and p: "Gemma3VisionAveragePooling_build lib pool0 = Inr (enc_pooling m)"
    and o0: "Gemma3VisionOutput_init lib output_dim eps (RandomNormal 0 (1 / 100))
       (if dtype_eq_str dtype ''bfloat16'' then DStr ''float32'' else dtype) = Inr out0"
    and ou: "Gemma3VisionOutput_build lib out0
           (Gemma3VisionAveragePooling_compute_output_shape (enc_pooling m)
              [None, Some ((image_size div patch_size) ^ 2), Some hidden_dim])
         = Inr (enc_vision_output_encoder m)"
    and sh: "enc_output_shape m
         = Gemma3VisionOutput_compute_output_shape (enc_vision_output_encoder m)
             (Gemma3VisionAveragePooling_compute_output_shape (enc_pooling m)
                [None, Some ((image_size div patch_size) ^ 2), Some hidden_dim])"
    and nv: "enc_num_vision_tokens_per_image m = (image_size div patch_size) ^ 2 div pool_size ^ 2"
    by (rule encoder_init_stages)
  show ?thesis
    using block_init_fields [OF b0] block_build_fields [OF b] pooling_init_fields [OF p0]
      pooling_build_fields [OF p] output_fields [OF o0 ou] sh nv
    by (simp add: Gemma3VisionAveragePooling_compute_output_shape_def
        Gemma3VisionOutput_compute_output_shape_def)
qed

text \<open>
  Claim C1, as stated, fails: with \<^verbatim>\<open>image_size=224, patch_size=14, pool_size=14\<close> the
  grid width 16 is not a multiple of 14, and the encoder is constructed all the same;
  so is an embedding with \<^verbatim>\<open>image_size=225\<close>, which is not a multiple of
  \<^verbatim>\<open>patch_size=14\<close>, and a pooling layer with \<^verbatim>\<open>224, 14, 14\<close>.
\<close>

theorem encoder_init_divisible_claim_counterexample:
  "\<not> isl (Gemma3VisionEncoder_init keras_accepts 224 14 2 8 1 16 4 14 (1 / 10 ^ 6) DNone)
   \<and> \<not> (14::int) dvd 224 div 14
   \<and> \<not> isl (Gemma3VisionEmbedding_init keras_accepts 225 14 8 3 DNone)
   \<and> \<not> (14::int) dvd 225
   \<and> \<not> isl (Gemma3VisionAveragePooling_init keras_accepts 224 14 14 DNone)"
  by (simp add: init_defs)

text \<open>
  Claim C1, amended: construction checks no divisibility of \<^verbatim>\<open>image_size\<close> by
  \<^verbatim>\<open>patch_size\<close> or of the grid width by \<^verbatim>\<open>pool_size\<close>. Whenever the library performs
  the calls of the constructor, the embedding is constructed for every
  \<^verbatim>\<open>patch_size\<close> other than 0 and the pooling layer for every \<^verbatim>\<open>patch_size\<close> and
  \<^verbatim>\<open>pool_size\<close> other than 0, whatever the remainders; a constructed embedding has
  \<^verbatim>\<open>num_patches = (image_size // patch_size)^2\<close>, a constructed pooling layer
  \<^verbatim>\<open>width = image_size // patch_size\<close> and \<^verbatim>\<open>reduced_width = width // pool_size\<close>, and
  so have the sublayers of a constructed encoder, by floor division.
\<close>

theorem encoder_init_no_divisibility_check:
  "(patch_size \<noteq> 0 \<and>
    list_all lib
      [LayerInit dtype, New (Conv2D hidden_dim patch_size patch_size dtype ''embedding_conv''),
       New (Embedding ((image_size div patch_size) ^ 2) hidden_dim dtype ''position_embedding''),
       Arange ((image_size div patch_size) ^ 2)]
    \<longrightarrow> \<not> isl (Gemma3VisionEmbedding_init lib image_size patch_size hidden_dim num_channels dtype))
   \<and> (Gemma3VisionEmbedding_init lib image_size patch_size hidden_dim num_channels dtype = Inr e
        \<longrightarrow> emb_num_patches e = (image_size div patch_size) ^ 2)
   \<and> (patch_size \<noteq> 0 \<and> pool_size \<noteq> 0 \<and> lib (LayerInit dtype)
        \<longrightarrow> \<not> isl (Gemma3VisionAveragePooling_init lib image_size patch_size pool_size dtype))
   \<and> (Gemma3VisionAveragePooling_init lib image_size patch_size pool_size dtype = Inr p
        \<longrightarrow> pool_width p = image_size div patch_size
          \<and> pool_reduced_width p = (image_size div patch_size) div pool_size)
   \<and> (Gemma3VisionEncoder_init lib image_size patch_size num_heads hidden_dim num_layers
          intermediate_dim output_dim pool_size eps dtype = Inr m
        \<longrightarrow> emb_num_patches (blk_vision_embeddings (enc_image_encoder m))
              = (image_size div patch_size) ^ 2
          \<and> pool_width (enc_pooling m) = image_size div patch_size
          \<and> pool_reduced_width (enc_pooling m) = (image_size div patch_size) div pool_size)"
proof -
  have a: "\<not> isl (Gemma3VisionEmbedding_init lib image_size patch_size hidden_dim num_channels dtype)"
    if "patch_size \<noteq> 0" and "list_all lib
      [LayerInit dtype, New (Conv2D hidden_dim patch_size patch_size dtype ''embedding_conv''),
       New (Embedding ((image_size div patch_size) ^ 2) hidden_dim dtype ''position_embedding''),
       Arange ((image_size div patch_size) ^ 2)]"
    using that by (simp add: Gemma3VisionEmbedding_init_def library_def floordiv_def Let_def)
  have b: "emb_num_patches e = (image_size div patch_size) ^ 2"
    if "Gemma3VisionEmbedding_init lib image_size patch_size hidden_dim num_channels dtype = Inr e"
    using that
    by (auto simp add: Gemma3VisionEmbedding_init_def library_def floordiv_def Let_def
        split: if_splits)
  have c: "\<not> isl (Gemma3VisionAveragePooling_init lib image_size patch_size pool_size dtype)"
    if "patch_size \<noteq> 0" and "pool_size \<noteq> 0" and "lib (LayerInit dtype)"
    using that by (simp add: Gemma3VisionAveragePooling_init_def library_def floordiv_def)
  show ?thesis
    using a b c pooling_init_fields [of lib image_size patch_size pool_size dtype p]
      encoder_init_Inr [of lib image_size patch_size num_heads hidden_dim num_layers
        intermediate_dim output_dim pool_size eps dtype m]
    by blast
qed

text \<open>
  Witness for C1: \<^verbatim>\<open>image_size=224, patch_size=14, pool_size=14\<close> constructs, with 256
  patches, width 16 and reduced width 1.
\<close>

theorem encoder_init_no_divisibility_check_witness:
  "\<not> isl (Gemma3VisionEmbedding_init keras_accepts 224 14 8 3 DNone)
   \<and> emb_num_patches (projr (Gemma3VisionEmbedding_init keras_accepts 224 14 8 3 DNone)) = 256
   \<and> \<not> isl (Gemma3VisionAveragePooling_init keras_accepts 224 14 14 DNone)
   \<and> pool_reduced_width (projr (Gemma3VisionAveragePooling_init keras_accepts 224 14 14 DNone)) = 1
   \<and> \<not> isl (Gemma3VisionEncoder_init keras_accepts 224 14 2 8 1 16 4 14 (1 / 10 ^ 6) DNone)
   \<and> emb_num_patches (blk_vision_embeddings (enc_image_encoder
        (projr (Gemma3VisionEncoder_init keras_accepts 224 14 2 8 1 16 4 14 (1 / 10 ^ 6) DNone))))
      = 256
   \<and> pool_width (enc_pooling
        (projr (Gemma3VisionEncoder_init keras_accepts 224 14 2 8 1 16 4 14 (1 / 10 ^ 6) DNone)))
      = 16
   \<and> pool_reduced_width (enc_pooling
        (projr (Gemma3VisionEncoder_init keras_accepts 224 14 2 8 1 16 4 14 (1 / 10 ^ 6) DNone)))
      = 1"
proof -
  let ?e = "Gemma3VisionEmbedding_init keras_accepts 224 14 8 3 DNone"
  let ?p = "Gemma3VisionAveragePooling_init keras_accepts 224 14 14 DNone"
  let ?m = "Gemma3VisionEncoder_init keras_accepts 224 14 2 8 1 16 4 14 (1 / 10 ^ 6) DNone"
  have n: "\<not> isl ?m" by (simp add: init_defs)
  then have m: "?m = Inr (projr ?m)" by simp
  have l: "list_all keras_accepts
      [LayerInit DNone, New (Conv2D 8 14 14 DNone ''embedding_conv''),
       New (Embedding ((224 div 14) ^ 2) 8 DNone ''position_embedding''),
       Arange ((224 div 14) ^ 2)]"
    by (simp add: known_dtype_def)
  have l': "keras_accepts (LayerInit DNone)" by (simp add: known_dtype_def)
  note t = encoder_init_no_divisibility_check [of 14 keras_accepts DNone 8 224 3 "projr ?e"
      14 "projr ?p" 2 1 16 4 "1 / 10 ^ 6" "projr ?m"]
  have ne: "\<not> isl ?e" using t l by simp
  have np: "\<not> isl ?p" using t l' by simp
  from ne have e: "?e = Inr (projr ?e)" by simp
  from np have p: "?p = Inr (projr ?p)" by simp
  show ?thesis
    using t n ne np m e p by simp
qed

text \<open>
  Claim C2 says that the output projection's \<^verbatim>\<open>get_config\<close> returns a configuration
  holding \<^verbatim>\<open>output_dim\<close>, \<^verbatim>\<open>layer_norm_epsilon\<close> and \<^verbatim>\<open>kernel_initializer\<close>. The code
  returns \<^verbatim>\<open>None\<close> for every output layer.
\<close>

theorem output_get_config_returns_none:
  "Gemma3VisionOutput_get_config l super_config = None"
  by (simp add: Gemma3VisionOutput_get_config_def)

text \<open>
  Claim C3, as stated, fails for \<^verbatim>\<open>float16\<close>: the encoder requested with the string
  \<^verbatim>\<open>"float16"\<close> is constructed, and every sublayer of it is built with \<^verbatim>\<open>float16\<close>.
\<close>

theorem float16_not_overridden_counterexample:
  "\<not> isl (Gemma3VisionEncoder_init keras_accepts 28 14 2 8 1 16 4 2 (1 / 10 ^ 6) (DStr ''float16''))
   \<and> set (map dtype_name (encoder_dtypes
        (projr (Gemma3VisionEncoder_init keras_accepts 28 14 2 8 1 16 4 2 (1 / 10 ^ 6)
                  (DStr ''float16'')))))
      = {Some ''float16''}"
proof -
  let ?r = "Gemma3VisionEncoder_init keras_accepts 28 14 2 8 1 16 4 2 (1 / 10 ^ 6) (DStr ''float16'')"
  have n: "\<not> isl ?r" by (simp add: init_defs)
  then have e: "?r = Inr (projr ?r)" by simp
  have "list_all (\<lambda>x. dtype_name x = Some ''float16'') (encoder_dtypes (projr ?r))"
    using encoder_init_dtypes [OF e] by simp
  moreover have "encoder_dtypes (projr ?r) \<noteq> []"
    by (simp add: encoder_dtypes_def)
  ultimately show ?thesis
    using n by (cases "encoder_dtypes (projr ?r)") (auto simp add: list_all_iff)
qed

text \<open>
  Claim C3, amended: when the requested precision is the string \<^verbatim>\<open>"bfloat16"\<close>, the
  encoder replaces it with \<^verbatim>\<open>"float32"\<close> before any sublayer is constructed:
  construction gives what it gives for \<^verbatim>\<open>"float32"\<close>, and every sublayer of the
  constructed encoder is built with \<^verbatim>\<open>float32\<close>. Every other string, \<^verbatim>\<open>"float16"\<close>
  included, is passed on unchanged to every sublayer.
\<close>

theorem bfloat16_string_override:
  "Gemma3VisionEncoder_init lib image_size patch_size num_heads hidden_dim num_layers
       intermediate_dim output_dim pool_size eps (DStr ''bfloat16'')
     = Gemma3VisionEncoder_init lib image_size patch_size num_heads hidden_dim num_layers
         intermediate_dim output_dim pool_size eps (DStr ''float32'')
   \<and> (Gemma3VisionEncoder_init lib image_size patch_size num_heads hidden_dim num_layers
         intermediate_dim output_dim pool_size eps (DStr ''bfloat16'') = Inr m
        \<longrightarrow> list_all (\<lambda>d. dtype_name d = Some ''float32'') (encoder_dtypes m))
   \<and> (s \<noteq> ''bfloat16'' \<and>
        Gemma3VisionEncoder_init lib image_size patch_size num_heads hidden_dim num_layers
          intermediate_dim output_dim pool_size eps (DStr s) = Inr m'
        \<longrightarrow> list_all (\<lambda>d. dtype_name d = Some s) (encoder_dtypes m'))"
proof -
  have 1: "Gemma3VisionEncoder_init lib image_size patch_size num_heads hidden_dim num_layers
       intermediate_dim output_dim pool_size eps (DStr ''bfloat16'')
     = Gemma3VisionEncoder_init lib image_size patch_size num_heads hidden_dim num_layers
         intermediate_dim output_dim pool_size eps (DStr ''float32'')"
    by (simp add: Gemma3VisionEncoder_init_def)
  show ?thesis
    using 1 encoder_init_dtypes [of lib image_size patch_size num_heads hidden_dim num_layers
         intermediate_dim output_dim pool_size eps "DStr ''bfloat16''" m]
      encoder_init_dtypes [of lib image_size patch_size num_heads hidden_dim num_layers
         intermediate_dim output_dim pool_size eps "DStr s" m']
    by auto
qed

text \<open>
  Witness for C3: a configuration whose construction succeeds for \<^verbatim>\<open>"bfloat16"\<close> and
  for \<^verbatim>\<open>"float32"\<close>.
\<close>

theorem bfloat16_string_override_witness:
  "Gemma3VisionEncoder_init keras_accepts 28 14 2 8 1 16 4 2 (1 / 10 ^ 6) (DStr ''bfloat16'')
     = Gemma3VisionEncoder_init keras_accepts 28 14 2 8 1 16 4 2 (1 / 10 ^ 6) (DStr ''float32'')
   \<and> \<not> isl (Gemma3VisionEncoder_init keras_accepts 28 14 2 8 1 16 4 2 (1 / 10 ^ 6)
              (DStr ''bfloat16''))
   \<and> list_all (\<lambda>d. dtype_name d = Some ''float32'')
        (encoder_dtypes (projr
           (Gemma3VisionEncoder_init keras_accepts 28 14 2 8 1 16 4 2 (1 / 10 ^ 6)
              (DStr ''bfloat16''))))
   \<and> ''float32'' \<noteq> ''bfloat16''
   \<and> list_all (\<lambda>d. dtype_name d = Some ''float32'')
        (encoder_dtypes (projr
           (Gemma3VisionEncoder_init keras_accepts 28 14 2 8 1 16 4 2 (1 / 10 ^ 6)
              (DStr ''float32''))))"
proof -
  let ?r = "Gemma3VisionEncoder_init keras_accepts 28 14 2 8 1 16 4 2 (1 / 10 ^ 6) (DStr ''bfloat16'')"
  let ?r' = "Gemma3VisionEncoder_init keras_accepts 28 14 2 8 1 16 4 2 (1 / 10 ^ 6) (DStr ''float32'')"
  have n: "\<not> isl ?r" "\<not> isl ?r'"
    by (simp_all add: init_defs)
  then have e: "?r = Inr (projr ?r)" "?r' = Inr (projr ?r')" by simp_all
  show ?thesis
    using n e bfloat16_string_override [of keras_accepts 28 14 2 8 1 16 4 2 "1 / 10 ^ 6"
        "projr ?r" "''float32''" "projr ?r'"]
    by simp
qed

text \<open>
  Claim C8, as stated, fails: \<^verbatim>\<open>image_size=42, patch_size=14, pool_size=2\<close> constructs
  with \<^verbatim>\<open>num_vision_tokens_per_image = 9 // 4 = 2\<close>, while the output has
  \<^verbatim>\<open>(3 // 2)^2 = 1\<close> token.
\<close>

theorem num_vision_tokens_counterexample:
  "\<not> isl (Gemma3VisionEncoder_init keras_accepts 42 14 2 8 1 16 4 2 (1 / 10 ^ 6) DNone)
   \<and> enc_num_vision_tokens_per_image
        (projr (Gemma3VisionEncoder_init keras_accepts 42 14 2 8 1 16 4 2 (1 / 10 ^ 6) DNone)) = 2
   \<and> enc_output_shape
        (projr (Gemma3VisionEncoder_init keras_accepts 42 14 2 8 1 16 4 2 (1 / 10 ^ 6) DNone))
      = [None, Some 1, Some 4]"
proof -
  let ?r = "Gemma3VisionEncoder_init keras_accepts 42 14 2 8 1 16 4 2 (1 / 10 ^ 6) DNone"
  have n: "\<not> isl ?r" by (simp add: init_defs)
  then have e: "?r = Inr (projr ?r)" by simp
  show ?thesis
    using n encoder_init_Inr [OF e] by simp
qed

text \<open>
  Claim C8, amended: for every constructed encoder,
  \<^verbatim>\<open>num_vision_tokens_per_image = num_patches // pool_size^2\<close> with
  \<^verbatim>\<open>num_patches = (image_size // patch_size)^2\<close>; when \<^verbatim>\<open>pool_size\<close> divides the grid
  width \<^verbatim>\<open>image_size // patch_size\<close>, this is the token count of the encoder's output
  shape.
\<close>

theorem num_vision_tokens_per_image_value:
  assumes "Gemma3VisionEncoder_init lib image_size patch_size num_heads hidden_dim num_layers
          intermediate_dim output_dim pool_size eps dtype = Inr m"
  shows "emb_num_patches (blk_vision_embeddings (enc_image_encoder m))
           = (image_size div patch_size) ^ 2
     \<and> enc_num_vision_tokens_per_image m
           = emb_num_patches (blk_vision_embeddings (enc_image_encoder m)) div pool_size ^ 2
     \<and> (pool_size dvd image_size div patch_size \<longrightarrow>
          enc_output_shape m = [None, Some (enc_num_vision_tokens_per_image m), Some output_dim])"
proof -
  have sq: "pool_size dvd image_size div patch_size \<Longrightarrow> pool_size \<noteq> 0 \<Longrightarrow>
      (image_size div patch_size) ^ 2 div pool_size ^ 2
      = (image_size div patch_size) div pool_size * ((image_size div patch_size) div pool_size)"
    by (auto simp add: dvd_def power2_eq_square)
  show ?thesis
    using encoder_init_Inr [OF assms] sq by simp
qed

text \<open>
  Witness for C8: \<^verbatim>\<open>image_size=896, patch_size=14, pool_size=4\<close> gives 256 tokens, and
  the output shape \<^verbatim>\<open>(None, 256, output_dim)\<close>.
\<close>

theorem num_vision_tokens_per_image_value_witness:
  "\<not> isl (Gemma3VisionEncoder_init keras_accepts 896 14 2 8 1 16 4 4 (1 / 10 ^ 6) DNone)
   \<and> (4::int) dvd 896 div 14
   \<and> enc_num_vision_tokens_per_image
        (projr (Gemma3VisionEncoder_init keras_accepts 896 14 2 8 1 16 4 4 (1 / 10 ^ 6) DNone))
      = 256
   \<and> enc_output_shape
        (projr (Gemma3VisionEncoder_init keras_accepts 896 14 2 8 1 16 4 4 (1 / 10 ^ 6) DNone))
      = [None, Some 256, Some 4]"
proof -
  let ?r = "Gemma3VisionEncoder_init keras_accepts 896 14 2 8 1 16 4 4 (1 / 10 ^ 6) DNone"
  have n: "\<not> isl ?r" by (simp add: init_defs)
  then have e: "?r = Inr (projr ?r)" by simp
  have d: "(4::int) dvd 896 div 14" by simp
  show ?thesis
    using n d num_vision_tokens_per_image_value [OF e] by simp
qed

section \<open>Properties of the forward computation\<close>

lemma sequence_map_Some:
  "(\<And>x. x \<in> set xs \<Longrightarrow> f x = Some (g x)) \<Longrightarrow> sequence (map f xs) = Some (map g xs)"
  by (induction xs) simp_all

lemma sequence_map2_Some:
  "(\<And>x y. (x, y) \<in> set (zip xs ys) \<Longrightarrow> f x y = Some (g x y))
     \<Longrightarrow> sequence (map2 f xs ys) = Some (map2 g xs ys)"
  using sequence_map_Some [of "zip xs ys" "\<lambda>(x, y). f x y" "\<lambda>(x, y). g x y"]
  by auto

lemma bcast_same_length:
  assumes "length xs = length ys"
    and "\<And>x y. (x, y) \<in> set (zip xs ys) \<Longrightarrow> f x y = Some (g x y)"
  shows "bcast f xs ys = Some (map2 g xs ys)"
  using assms by (simp add: bcast_def sequence_map2_Some)

lemma bcast_right_one:
  assumes "length ys = 1"
    and "\<And>x. x \<in> set xs \<Longrightarrow> f x (hd ys) = Some (g x (hd ys))"
  shows "bcast f xs ys = Some (map (\<lambda>x. g x (hd ys)) xs)"
proof (cases "length xs = 1")
  case True
  then obtain x where x: "xs = [x]" by (cases xs) auto
  from assms(1) obtain y where y: "ys = [y]" by (cases ys) auto
  show ?thesis using assms(2) by (simp add: bcast_def x y)
next
  case False
  then show ?thesis
    using assms by (simp add: bcast_def sequence_map_Some)
qed


lemma split_into_length [simp]: "length (split_into k n xs) = k"
  by (simp add: split_into_def)

lemma split_into_nth: "i < k \<Longrightarrow> split_into k n xs ! i = take n (drop (i * n) xs)"
  by (simp add: split_into_def)

lemma split_into_concat:
  assumes "length xss = k" and "\<forall>xs \<in> set xss. length xs = n"
  shows "split_into k n (concat xss) = xss"
  using assms
proof (induction xss arbitrary: k)
  case Nil
  then show ?case by (simp add: split_into_def)
next
  case (Cons a xss)
  then obtain k' where k: "k = Suc k'" and k': "length xss = k'" by auto
  have la: "length a = n" using Cons.prems by simp
  have "split_into (Suc k') n (a @ concat xss)
        = take n (a @ concat xss) # map (\<lambda>i. take n (drop (Suc i * n) (a @ concat xss))) [0 ..< k']"
    by (simp add: split_into_def upt_conv_Cons map_Suc_upt [symmetric] del: upt_Suc)
  also have "\<dots> = a # map (\<lambda>i. take n (drop (i * n) (concat xss))) [0 ..< k']"
    using la by (simp add: add.commute)
  also have "\<dots> = a # xss"
    using Cons.IH [OF k'] Cons.prems by (simp add: split_into_def)
  finally show ?case by (simp add: k)
qed

lemma length_concat_uniform:
  "\<forall>xs \<in> set xss. length xs = n \<Longrightarrow> length (concat xss) = length xss * n"
  by (induction xss) auto

lemma has_shape2D: "has_shape2 s d m \<Longrightarrow> r \<in> set m \<Longrightarrow> length r = d"
  by (simp add: has_shape2_def has_shape1_def list_all_iff)

lemma has_shape2_len: "has_shape2 s d m \<Longrightarrow> length m = s"
  by (simp add: has_shape2_def)

lemma has_shape3D: "has_shape3 n s d t \<Longrightarrow> m \<in> set t \<Longrightarrow> has_shape2 s d m"
  by (simp add: has_shape3_def list_all_iff)

lemma has_shape3_len: "has_shape3 n s d t \<Longrightarrow> length t = n"
  by (simp add: has_shape3_def)

lemma has_shape4D: "has_shape4 n h s d t \<Longrightarrow> m \<in> set t \<Longrightarrow> has_shape3 h s d m"
  by (simp add: has_shape4_def list_all_iff)

lemma has_shape4_len: "has_shape4 n h s d t \<Longrightarrow> length t = n"
  by (simp add: has_shape4_def)

lemma has_shape2I: "length m = s \<Longrightarrow> (\<And>r. r \<in> set m \<Longrightarrow> length r = d) \<Longrightarrow> has_shape2 s d m"
  by (simp add: has_shape2_def has_shape1_def list_all_iff)

lemma has_shape3I:
  "length t = n \<Longrightarrow> (\<And>m. m \<in> set t \<Longrightarrow> has_shape2 s d m) \<Longrightarrow> has_shape3 n s d t"
  by (simp add: has_shape3_def list_all_iff)

lemma has_shape4I:
  "length t = n \<Longrightarrow> (\<And>m. m \<in> set t \<Longrightarrow> has_shape3 h s d m) \<Longrightarrow> has_shape4 n h s d t"
  by (simp add: has_shape4_def list_all_iff)

lemma ncols_shape2: "has_shape2 s d m \<Longrightarrow> 0 < s \<Longrightarrow> ncols m = d"
  by (cases m) (auto simp add: ncols_def has_shape2_def has_shape1_def)

lemma ncols_shape3: "has_shape3 n s d t \<Longrightarrow> 0 < n \<Longrightarrow> ncols t = s"
  by (cases t) (auto simp add: ncols_def has_shape3_def has_shape2_def)

lemma transpose2_shape:
  "has_shape2 s d m \<Longrightarrow> 0 < s \<Longrightarrow> has_shape2 d s (transpose2 m)"
  by (simp add: transpose2_def ncols_shape2 has_shape2_def has_shape1_def list_all_iff)

lemma mm_shape:
  assumes "has_shape2 s k a" and "has_shape2 k d b" and "0 < k"
  shows "has_shape2 s d (mm a b)"
  using assms transpose2_shape [OF assms(2,3)]
  by (simp add: mm_def has_shape2_def has_shape1_def list_all_iff)

lemma matmul2_mm:
  assumes "has_shape2 s k a" and "length b = k"
  shows "matmul2 a b = Some (mm a b)"
  using assms by (simp add: matmul2_def mm_def has_shape2_def has_shape1_def list_all_iff)

lemma dense_apply_shape:
  assumes "has_shape2 s i m" and "dense_shape i u w" and "0 < i"
  shows "has_shape2 s u (dense_apply w m)"
proof -
  have "has_shape2 s u (mm m (dense_kernel w))"
    using assms by (intro mm_shape [of s i]) (simp_all add: dense_shape_def)
  then show ?thesis
    using assms(2) by (simp add: dense_apply_def dense_shape_def has_shape2_def has_shape1_def list_all_iff)
qed

lemma Dense_call_linear:
  assumes "has_shape3 n s i x" and "dense_shape i u w"
  shows "Dense_call w x = Some (map (dense_apply w) x)"
proof -
  have "map_option (map (\<lambda>r. map2 (+) r (dense_bias w))) (matmul2 m (dense_kernel w)) = Some (dense_apply w m)"
    if "m \<in> set x" for m
  proof -
    have "has_shape2 s i m" using that assms(1) by (rule has_shape3D [rotated])
    moreover have "length (dense_kernel w) = i"
      using assms(2) by (simp add: dense_shape_def has_shape2_def)
    ultimately have "matmul2 m (dense_kernel w) = Some (mm m (dense_kernel w))"
      by (rule matmul2_mm)
    then show ?thesis by (simp add: dense_apply_def)
  qed
  then show ?thesis
    unfolding Dense_call_def by (rule sequence_map_Some)
qed

lemma Dense_call_shape:
  assumes "has_shape3 n s i x" and "dense_shape i u w" and "0 < i"
  shows "has_shape3 n s u (map (dense_apply w) x)"
  using assms by (auto intro!: has_shape3I dense_apply_shape [of s i] dest: has_shape3D has_shape3_len)

lemma concat_concat_map: "concat (concat xss) = concat (map concat xss)"
  by (induction xss) simp_all

lemma flat3_concat: "flat3 t = concat (map concat t)"
  by (simp add: flat3_def concat_concat_map)

lemma flat4_concat: "flat4 t = concat (map (\<lambda>m. concat (map concat m)) t)"
proof -
  have "flat4 t = concat (map concat (concat t))"
    by (simp only: flat4_def concat_concat_map [of "concat t"])
  also have "\<dots> = concat (concat (map (map concat) t))"
    by (simp only: map_concat)
  also have "\<dots> = concat (map concat (map (map concat) t))"
    by (rule concat_concat_map)
  also have "\<dots> = concat (map (\<lambda>m. concat (map concat m)) t)"
    by (simp only: map_map comp_def)
  finally show ?thesis .
qed

lemma length_concat_shape2: "has_shape2 s d m \<Longrightarrow> length (concat m) = s * d"
  using length_concat_uniform [of m d] by (simp add: has_shape2_def has_shape1_def list_all_iff)

lemma split_into_concat_shape2: "has_shape2 s d m \<Longrightarrow> split_into s d (concat m) = m"
  by (rule split_into_concat) (simp_all add: has_shape2_def has_shape1_def list_all_iff)

lemma reshape4_flat3:
  assumes "has_shape3 n s (h * d) t"
  shows "reshape4 n s h d (flat3 t) = Some (map (map (split_into h d)) t)"
proof -
  have len: "\<forall>ys \<in> set (map concat t). length ys = s * (h * d)"
    using assms by (auto dest!: has_shape3D length_concat_shape2)
  have l: "length (flat3 t) = n * s * h * d"
    using length_concat_uniform [OF len] assms
    by (simp add: flat3_concat has_shape3_len mult.assoc)
  have sp: "split_into n (s * h * d) (flat3 t) = map concat t"
    unfolding flat3_concat using assms len
    by (intro split_into_concat) (simp_all add: has_shape3_len mult.assoc)
  have "map (\<lambda>ys. map (split_into h d) (split_into s (h * d) ys)) (map concat t)
        = map (map (split_into h d)) t"
    using assms by (auto dest!: has_shape3D split_into_concat_shape2)
  then show ?thesis
    using l sp by (simp add: reshape4_def)
qed

lemma transpose2_split_heads:
  assumes "m \<noteq> []"
  shows "transpose2 (map (split_into h d) m) = split_heads h d m"
proof -
  have "ncols (map (split_into h d) m) = h"
    using assms by (cases m) (simp_all add: ncols_def)
  then show ?thesis
    by (simp add: transpose2_def split_heads_def split_into_nth)
qed

lemma split_heads_shape:
  assumes "has_shape2 s (h * d) m"
  shows "has_shape3 h s d (split_heads h d m)"
proof (rule has_shape3I)
  show "length (split_heads h d m) = h" by (simp add: split_heads_def)
next
  fix hm assume "hm \<in> set (split_heads h d m)"
  then obtain j where j: "j < h" and hm: "hm = map (\<lambda>row. take d (drop (j * d) row)) m"
    by (auto simp add: split_heads_def)
  have "d \<le> h * d - j * d"
  proof -
    from j have "Suc j \<le> h" by simp
    then have "Suc j * d \<le> h * d" by (rule mult_le_mono1)
    then show ?thesis by simp
  qed
  then show "has_shape2 s d hm"
    using assms by (auto simp add: hm has_shape2_def has_shape1_def list_all_iff)
qed

lemma transpose_for_scores_split_heads:
  assumes "has_shape3 n s (h * d) t" and "0 < n" and "0 < s"
    and "nat (attn_num_heads a) = h" and "nat (attn_head_dim a) = d"
  shows "transpose_for_scores a t n = Some (map (split_heads h d) t)"
proof -
  have "ncols t = s" using assms(1,2) by (rule ncols_shape3)
  moreover have "map transpose2 (map (map (split_into h d)) t) = map (split_heads h d) t"
    using assms(1,3)
    by (auto dest!: has_shape3D has_shape2_len intro!: transpose2_split_heads)
  ultimately show ?thesis
    using assms reshape4_flat3 [OF assms(1)] by (simp add: transpose_for_scores_def)
qed

lemma split_heads_shape4:
  "has_shape3 n s (h * d) t \<Longrightarrow> has_shape4 n h s d (map (split_heads h d) t)"
  by (auto intro!: has_shape4I split_heads_shape dest: has_shape3D has_shape3_len)

lemma matmul4_mm:
  assumes "has_shape4 n h s k a" and "has_shape4 n h k d b"
  shows "matmul4 a b = Some (map2 (map2 mm) a b)"
  unfolding matmul4_def
proof (rule bcast_same_length)
  show "length a = length b"
    using assms by (simp add: has_shape4_len)
next
  fix x y assume xy: "(x, y) \<in> set (zip a b)"
  then have x: "has_shape3 h s k x" and y: "has_shape3 h k d y"
    using assms by (auto dest: set_zip_leftD set_zip_rightD has_shape4D)
  show "bcast matmul2 x y = Some (map2 mm x y)"
  proof (rule bcast_same_length)
    show "length x = length y" using x y by (simp add: has_shape3_len)
  next
    fix p q assume "(p, q) \<in> set (zip x y)"
    then have "has_shape2 s k p" and "has_shape2 k d q"
      using x y by (auto dest: set_zip_leftD set_zip_rightD has_shape3D)
    then show "matmul2 p q = Some (mm p q)"
      by (intro matmul2_mm) (simp_all add: has_shape2_len)
  qed
qed

lemma has_shape3_map2:
  assumes "has_shape3 h s k x" and "has_shape3 h s' k' y"
    and "\<And>p q. has_shape2 s k p \<Longrightarrow> has_shape2 s' k' q \<Longrightarrow> has_shape2 s'' k'' (f p q)"
  shows "has_shape3 h s'' k'' (map2 f x y)"
proof (rule has_shape3I)
  show "length (map2 f x y) = h"
    using assms(1,2) by (simp add: has_shape3_len)
next
  fix m assume "m \<in> set (map2 f x y)"
  then obtain p q where "(p, q) \<in> set (zip x y)" and m: "m = f p q" by auto
  then have "has_shape2 s k p" and "has_shape2 s' k' q"
    using assms(1,2) by (auto dest: set_zip_leftD set_zip_rightD has_shape3D)
  then show "has_shape2 s'' k'' m"
    unfolding m by (rule assms(3))
qed

lemma has_shape4_map2:
  assumes "has_shape4 n h s k a" and "has_shape4 n h s' k' b"
    and "\<And>p q. has_shape2 s k p \<Longrightarrow> has_shape2 s' k' q \<Longrightarrow> has_shape2 s'' k'' (f p q)"
  shows "has_shape4 n h s'' k'' (map2 (map2 f) a b)"
proof (rule has_shape4I)
  show "length (map2 (map2 f) a b) = n"
    using assms by (simp add: has_shape4_len)
next
  fix m assume "m \<in> set (map2 (map2 f) a b)"
  then obtain x y where "(x, y) \<in> set (zip a b)" and m: "m = map2 f x y" by auto
  then have "has_shape3 h s k x" and "has_shape3 h s' k' y"
    using assms by (auto dest: set_zip_leftD set_zip_rightD has_shape4D)
  then show "has_shape3 h s'' k'' m"
    unfolding m using assms(3) by (rule has_shape3_map2)
qed

lemma has_shape4_map:
  assumes "has_shape4 n h s k a"
    and "\<And>p. has_shape2 s k p \<Longrightarrow> has_shape2 s' k' (f p)"
  shows "has_shape4 n h s' k' (map (map f) a)"
proof (rule has_shape4I)
  show "length (map (map f) a) = n"
    using assms(1) by (simp add: has_shape4_len)
next
  fix m assume "m \<in> set (map (map f) a)"
  then obtain x where x: "x \<in> set a" and m: "m = map f x" by auto
  have hx: "has_shape3 h s k x" using assms(1) x by (rule has_shape4D)
  show "has_shape3 h s' k' m"
    unfolding m
  proof (rule has_shape3I)
    show "length (map f x) = h" using hx by (simp add: has_shape3_len)
  next
    fix p assume "p \<in> set (map f x)"
    then obtain q where "q \<in> set x" and p: "p = f q" by auto
    then have "has_shape2 s k q" using hx by (auto dest: has_shape3D)
    then show "has_shape2 s' k' p" unfolding p by (rule assms(2))
  qed
qed

lemma add_rows: "length u = length v \<Longrightarrow> bcast add0 u v = Some (map2 (+) u v)"
  by (rule bcast_same_length) (simp_all add: add0_def)

lemma add_matrices:
  assumes "has_shape2 s k p" and "has_shape2 s k q"
  shows "bcast (bcast add0) p q = Some (map2 (map2 (+)) p q)"
proof (rule bcast_same_length)
  show "length p = length q" using assms by (simp add: has_shape2_len)
next
  fix u v assume "(u, v) \<in> set (zip p q)"
  then have "length u = k" and "length v = k"
    using assms by (auto dest: set_zip_leftD set_zip_rightD has_shape2D)
  then show "bcast add0 u v = Some (map2 (+) u v)"
    by (intro add_rows) simp
qed

lemma add4_mask:
  assumes "has_shape4 n h s k sc" and "has_shape4 n 1 s k mk"
  shows "add4 sc mk
         = Some (map2 (\<lambda>scb mb. map (\<lambda>scm. map2 (map2 (+)) scm (hd mb)) scb) sc mk)"
  unfolding add4_def
proof (rule bcast_same_length)
  show "length sc = length mk" using assms by (simp add: has_shape4_len)
next
  fix scb mb assume "(scb, mb) \<in> set (zip sc mk)"
  then have scb: "has_shape3 h s k scb" and mb: "has_shape3 1 s k mb"
    using assms by (auto dest: set_zip_leftD set_zip_rightD has_shape4D)
  from mb have l: "length mb = 1" by (simp add: has_shape3_len)
  then have "hd mb \<in> set mb" by (cases mb) auto
  then have hm: "has_shape2 s k (hd mb)" using mb by (auto dest: has_shape3D)
  show "bcast (bcast (bcast add0)) scb mb
        = Some (map (\<lambda>scm. map2 (map2 (+)) scm (hd mb)) scb)"
    using l
  proof (rule bcast_right_one)
    fix scm assume "scm \<in> set scb"
    then have "has_shape2 s k scm" using scb by (auto dest: has_shape3D)
    then show "bcast (bcast add0) scm (hd mb) = Some (map2 (map2 (+)) scm (hd mb))"
      using hm by (rule add_matrices)
  qed
qed

lemma add_matrices_shape:
  assumes "has_shape2 s k p" and "has_shape2 s k q"
  shows "has_shape2 s k (map2 (map2 (+)) p q)"
proof (rule has_shape2I)
  show "length (map2 (map2 (+)) p q) = s"
    using assms by (simp add: has_shape2_len)
next
  fix r assume "r \<in> set (map2 (map2 (+)) p q)"
  then obtain u v where "(u, v) \<in> set (zip p q)" and r: "r = map2 (+) u v" by auto
  then have "length u = k" and "length v = k"
    using assms by (auto dest: set_zip_leftD set_zip_rightD has_shape2D)
  then show "length r = k" by (simp add: r)
qed

lemma add4_mask_shape:
  assumes "has_shape4 n h s k sc" and "has_shape4 n 1 s k mk"
  shows "has_shape4 n h s k (map2 (\<lambda>scb mb. map (\<lambda>scm. map2 (map2 (+)) scm (hd mb)) scb) sc mk)"
proof (rule has_shape4I)
  show "length (map2 (\<lambda>scb mb. map (\<lambda>scm. map2 (map2 (+)) scm (hd mb)) scb) sc mk) = n"
    using assms by (simp add: has_shape4_len)
next
  fix m assume "m \<in> set (map2 (\<lambda>scb mb. map (\<lambda>scm. map2 (map2 (+)) scm (hd mb)) scb) sc mk)"
  then obtain scb mb where z: "(scb, mb) \<in> set (zip sc mk)"
    and m: "m = map (\<lambda>scm. map2 (map2 (+)) scm (hd mb)) scb" by auto
  then have scb: "has_shape3 h s k scb" and mb: "has_shape3 1 s k mb"
    using assms by (auto dest: set_zip_leftD set_zip_rightD has_shape4D)
  from mb have "length mb = 1" by (simp add: has_shape3_len)
  then have "hd mb \<in> set mb" by (cases mb) auto
  then have hm: "has_shape2 s k (hd mb)" using mb by (auto dest: has_shape3D)
  show "has_shape3 h s k m"
    unfolding m using scb hm
    by (auto intro!: has_shape3I add_matrices_shape dest: has_shape3D has_shape3_len)
qed

lemma reshape3_flat4:
  assumes "has_shape4 n s h d t"
  shows "reshape3 n s (h * d) (flat4 t) = Some (map (map concat) t)"
proof -
  have m2: "has_shape2 s (h * d) (map concat m)" if "m \<in> set t" for m
  proof -
    have hm: "has_shape3 s h d m" using assms that by (rule has_shape4D)
    show ?thesis
    proof (rule has_shape2I)
      show "length (map concat m) = s" using hm by (simp add: has_shape3_len)
    next
      fix r assume "r \<in> set (map concat m)"
      then obtain p where "p \<in> set m" and r: "r = concat p" by auto
      then have "has_shape2 h d p" using hm by (auto dest: has_shape3D)
      then show "length r = h * d" unfolding r by (rule length_concat_shape2)
    qed
  qed
  have len: "\<forall>ys \<in> set (map (\<lambda>m. concat (map concat m)) t). length ys = s * (h * d)"
    using m2 by (auto dest!: length_concat_shape2)
  have l: "length (flat4 t) = n * s * (h * d)"
    using length_concat_uniform [OF len] assms
    by (simp add: flat4_concat has_shape4_len mult.assoc)
  have sp: "split_into n (s * (h * d)) (flat4 t) = map (\<lambda>m. concat (map concat m)) t"
    unfolding flat4_concat using assms len
    by (intro split_into_concat) (simp_all add: has_shape4_len)
  have "map (split_into s (h * d)) (map (\<lambda>m. concat (map concat m)) t) = map (map concat) t"
    using m2 by (auto dest!: split_into_concat_shape2)
  then show ?thesis
    using l sp by (simp add: reshape3_def)
qed

lemma transpose2_heads_shape:
  assumes "has_shape3 h s d outs" and "0 < h"
  shows "has_shape3 s h d (transpose2 outs)"
proof -
  have n: "ncols outs = s" using assms by (rule ncols_shape3)
  have "length (r ! i) = d" if "r \<in> set outs" and "i < s" for r i
  proof -
    have r: "has_shape2 s d r" using assms(1) that(1) by (rule has_shape3D)
    then have "r ! i \<in> set r" using that(2) by (simp add: has_shape2_len)
    with r show ?thesis by (rule has_shape2D)
  qed
  then show ?thesis
    using assms
    by (auto intro!: has_shape3I has_shape2I simp add: transpose2_def n has_shape3_len)
qed

lemma merge_heads_transpose2:
  assumes "has_shape3 h s d outs" and "0 < h"
  shows "map concat (transpose2 outs) = merge_heads s outs"
  using ncols_shape3 [OF assms] by (simp add: transpose2_def merge_heads_def)

lemma scaled_scores_shape:
  assumes "has_shape2 s d q" and "has_shape2 s d k" and "0 < s" and "0 < d"
  shows "has_shape2 s s (scaled_scores d q k)"
proof -
  have "has_shape2 d s (transpose2 k)" using assms(2,3) by (rule transpose2_shape)
  with assms(1) have "has_shape2 s s (mm q (transpose2 k))"
    using assms(4) by (rule mm_shape)
  then show ?thesis
    by (simp add: scaled_scores_def has_shape2_def has_shape1_def list_all_iff)
qed

lemma softmax_shape: "has_shape2 s k p \<Longrightarrow> has_shape2 s k (map softmax p)"
  by (simp add: softmax_def has_shape2_def has_shape1_def list_all_iff)

lemma map_map2_map:
  "map g (map2 F xs (map T ys)) = map2 (\<lambda>a b. g (F a (T b))) xs ys"
  by (induction xs ys rule: list_induct2') simp_all

lemma map_map2: "map g (map2 F xs ys) = map2 (\<lambda>a b. g (F a b)) xs ys"
  by (induction xs ys rule: list_induct2') simp_all

lemma map2_map_left: "map2 F (map f xs) ys = map2 (\<lambda>a b. F (f a) b) xs ys"
  by (induction xs ys rule: list_induct2') simp_all

lemma concat_rows_shape:
  assumes "has_shape4 n s h d t"
  shows "has_shape3 n s (h * d) (map (map concat) t)"
proof (rule has_shape3I)
  show "length (map (map concat) t) = n" using assms by (simp add: has_shape4_len)
next
  fix m' assume "m' \<in> set (map (map concat) t)"
  then obtain m where mt: "m \<in> set t" and m': "m' = map concat m" by auto
  have hm: "has_shape3 s h d m" using assms mt by (rule has_shape4D)
  show "has_shape2 s (h * d) m'"
    unfolding m'
  proof (rule has_shape2I)
    show "length (map concat m) = s" using hm by (simp add: has_shape3_len)
  next
    fix r assume "r \<in> set (map concat m)"
    then obtain p where "p \<in> set m" and r: "r = concat p" by auto
    then have "has_shape2 h d p" using hm by (auto dest: has_shape3D)
    then show "length r = h * d" unfolding r by (rule length_concat_shape2)
  qed
qed

lemma transpose2_heads_shape4:
  assumes "has_shape4 n h s d t" and "0 < h"
  shows "has_shape4 n s h d (map transpose2 t)"
proof (rule has_shape4I)
  show "length (map transpose2 t) = n" using assms by (simp add: has_shape4_len)
next
  fix m' assume "m' \<in> set (map transpose2 t)"
  then obtain m where "m \<in> set t" and m': "m' = transpose2 m" by auto
  then have "has_shape3 h s d m" using assms(1) by (auto dest: has_shape4D)
  then show "has_shape3 s h d m'"
    unfolding m' using assms(2) by (rule transpose2_heads_shape)
qed

lemma snd_attention_spec_None:
  "snd (attention_spec h d w m None)
   = map (map softmax)
       (map2 (scaled_scores d) (split_heads h d (dense_apply (w_query w) m))
          (split_heads h d (dense_apply (w_key w) m)))"
  by (simp add: attention_spec_def Let_def)

lemma snd_attention_spec_Some:
  "snd (attention_spec h d w m (Some mb))
   = map (map softmax)
       (map (\<lambda>scm. map2 (map2 (+)) scm mb)
          (map2 (scaled_scores d) (split_heads h d (dense_apply (w_query w) m))
             (split_heads h d (dense_apply (w_key w) m))))"
  by (simp add: attention_spec_def Let_def)

lemma attention_call_general:
  assumes h: "nat (attn_num_heads a) = h" and d: "nat (attn_head_dim a) = d"
    and hd: "nat (attn_hidden_dim a) = h * d" and hpos: "0 < h" and dpos: "0 < d"
    and w: "attention_weights_shape (h * d) w"
    and x: "has_shape3 n s (h * d) x" and npos: "0 < n" and spos: "0 < s"
    and ms: "(case mask_arg of None \<Rightarrow> Some (scores_of h d w x)
               | Some am \<Rightarrow> add4 (scores_of h d w x) am) = Some s2"
    and s24: "has_shape4 n h s s s2"
    and rnd: "training \<and> 0 < attn_dropout a \<longrightarrow>
              has_shape4 n h s s (rnd (map (map (map softmax)) s2))"
  shows "Gemma3VisionAttention_call a w rnd x mask_arg training
         = Some (output_of s w
                   (Dropout_call (attn_dropout a) rnd (map (map (map softmax)) s2) training)
                   (values_of h d w x),
                 map (map (map softmax)) s2)
       \<and> has_shape4 n h s s (scores_of h d w x)
       \<and> has_shape3 n s (h * d)
           (output_of s w
              (Dropout_call (attn_dropout a) rnd (map (map (map softmax)) s2) training)
              (values_of h d w x))"
proof -
  have hdpos: "0 < h * d" using hpos dpos by simp
  define mq where "mq = map (dense_apply (w_query w)) x"
  define mk' where "mk' = map (dense_apply (w_key w)) x"
  define mv where "mv = map (dense_apply (w_value w)) x"
  have dq: "Dense_call (w_query w) x = Some mq" and dk: "Dense_call (w_key w) x = Some mk'"
    and dv: "Dense_call (w_value w) x = Some mv"
    using x w unfolding mq_def mk'_def mv_def attention_weights_shape_def
    by (auto intro: Dense_call_linear)
  have sq: "has_shape3 n s (h * d) mq" and sk: "has_shape3 n s (h * d) mk'"
    and sv: "has_shape3 n s (h * d) mv"
    using x w hdpos unfolding mq_def mk'_def mv_def attention_weights_shape_def
    by (auto intro: Dense_call_shape)
  define q where "q = map (split_heads h d) mq"
  define k where "k = map (split_heads h d) mk'"
  define v where "v = map (split_heads h d) mv"
  have tq: "transpose_for_scores a mq (length x) = Some q"
    and tk: "transpose_for_scores a mk' (length x) = Some k"
    and tv: "transpose_for_scores a mv (length x) = Some v"
    using sq sk sv npos spos h d x unfolding q_def k_def v_def
    by (auto simp add: has_shape3_len intro: transpose_for_scores_split_heads)
  have q4: "has_shape4 n h s d q" and k4: "has_shape4 n h s d k" and v4: "has_shape4 n h s d v"
    using sq sk sv unfolding q_def k_def v_def by (auto intro: split_heads_shape4)
  have kt4: "has_shape4 n h d s (map (map transpose2) k)"
    using k4 spos by (auto intro: has_shape4_map transpose2_shape)
  have m1: "matmul4 q (map (map transpose2) k) = Some (map2 (map2 mm) q (map (map transpose2) k))"
    using q4 kt4 by (rule matmul4_mm)
  define s1 where "s1 = map2 (map2 (scaled_scores d)) q k"
  have "attn_head_dim a = int d" using d dpos by linarith
  then have dkv: "sqrt (real_of_int (attn_head_dim a)) = sqrt (real d)" by simp
  have sc: "map (map (map (map (\<lambda>s. s / sqrt (real d)))))
              (map2 (map2 mm) q (map (map transpose2) k)) = s1"
    unfolding s1_def scaled_scores_def by (simp only: map_map2_map)
  have s14: "has_shape4 n h s s s1"
    unfolding s1_def using q4 k4 spos dpos
    by (auto intro: has_shape4_map2 scaled_scores_shape)
  have s1x: "s1 = scores_of h d w x"
    unfolding s1_def q_def k_def mq_def mk'_def scores_of_def
    by (simp only: map_map map2_map_map comp_def)
  have ms': "(case mask_arg of
                 None \<Rightarrow> Some (map (map (map (map (\<lambda>s. s / sqrt (real d)))))
                                 (map2 (map2 mm) q (map (map transpose2) k)))
               | Some am \<Rightarrow> add4 (map (map (map (map (\<lambda>s. s / sqrt (real d)))))
                                 (map2 (map2 mm) q (map (map transpose2) k))) am) = Some s2"
    unfolding sc s1x by (rule ms)
  define P where "P = map (map (map softmax)) s2"
  have P4: "has_shape4 n h s s P"
    unfolding P_def using s24 by (auto intro: has_shape4_map softmax_shape)
  define DP where "DP = Dropout_call (attn_dropout a) rnd P training"
  have DP4: "has_shape4 n h s s DP"
    using rnd P4 unfolding DP_def Dropout_call_def P_def by auto
  define out where "out = map2 (map2 mm) DP v"
  have m2: "matmul4 DP v = Some out"
    unfolding out_def using DP4 v4 by (rule matmul4_mm)
  have out4: "has_shape4 n h s d out"
    unfolding out_def using DP4 v4 spos by (auto intro: has_shape4_map2 mm_shape)
  have ot4: "has_shape4 n s h d (map transpose2 out)"
    using out4 hpos by (rule transpose2_heads_shape4)
  then have nc: "ncols (map transpose2 out) = s"
    using npos by (cases "map transpose2 out")
      (auto simp add: ncols_def has_shape4_def has_shape3_def)
  have mg: "map (map concat) (map transpose2 out) = map (merge_heads s) out"
    using out4 hpos by (auto dest!: has_shape4D intro!: merge_heads_transpose2)
  have r3: "reshape3 (length x) (ncols (map transpose2 out)) (nat (attn_hidden_dim a))
              (flat4 (map transpose2 out)) = Some (map (merge_heads s) out)"
  proof -
    have "length x = n" using x by (rule has_shape3_len)
    then show ?thesis
      using reshape3_flat4 [OF ot4] unfolding nc hd mg by simp
  qed
  have mg3: "has_shape3 n s (h * d) (map (merge_heads s) out)"
    using concat_rows_shape [OF ot4] unfolding mg .
  have wo: "dense_shape (h * d) (h * d) (w_out w)"
    using w by (simp add: attention_weights_shape_def)
  have d4: "Dense_call (w_out w) (map (merge_heads s) out)
            = Some (map (dense_apply (w_out w)) (map (merge_heads s) out))"
    using mg3 wo by (rule Dense_call_linear)
  have o3: "has_shape3 n s (h * d) (map (dense_apply (w_out w)) (map (merge_heads s) out))"
    using mg3 wo hdpos by (rule Dense_call_shape)
  have oeq: "map (dense_apply (w_out w)) (map (merge_heads s) out)
             = output_of s w DP (values_of h d w x)"
  proof -
    have veq: "v = values_of h d w x"
      unfolding v_def mv_def values_of_def by simp
    have "map (dense_apply (w_out w)) (map (merge_heads s) out)
          = map (\<lambda>hm. dense_apply (w_out w) (merge_heads s hm)) (map2 (map2 mm) DP v)"
      unfolding out_def by simp
    also have "\<dots> = map2 (\<lambda>pb vb. dense_apply (w_out w) (merge_heads s (map2 mm pb vb))) DP v"
      by (rule map_map2)
    finally show ?thesis
      unfolding output_of_def veq .
  qed
  have "Gemma3VisionAttention_call a w rnd x mask_arg training
        = Some (map (dense_apply (w_out w)) (map (merge_heads s) out), P)"
    unfolding Gemma3VisionAttention_call_def
    by (simp add: dq dk dv tq tk tv m1 dkv ms' Let_def P_def [symmetric] DP_def [symmetric]
        m2 r3 d4)
  then show ?thesis
    using s14 o3 unfolding oeq DP_def P_def s1x by simp
qed

lemma attention_init_fields:
  assumes "Gemma3VisionAttention_init lib hidden_dim num_heads dropout dtype = Inr a"
    and "0 < hidden_dim" and "0 < num_heads"
  shows "attn_num_heads a = num_heads" and "attn_hidden_dim a = hidden_dim"
    and "attn_head_dim a = hidden_dim div num_heads" and "attn_dropout a = dropout"
    and "0 < hidden_dim div num_heads"
    and "nat hidden_dim = nat num_heads * nat (hidden_dim div num_heads)"
proof -
  have f: "attn_num_heads a = num_heads \<and> attn_hidden_dim a = hidden_dim
      \<and> attn_head_dim a = hidden_dim div num_heads \<and> attn_dropout a = dropout
      \<and> hidden_dim div num_heads \<noteq> 0
      \<and> (hidden_dim div num_heads) * num_heads = hidden_dim"
    using assms(1)
    by (auto simp add: Gemma3VisionAttention_init_def library_def floordiv_def
        split: if_splits)
  then show "attn_num_heads a = num_heads" and "attn_hidden_dim a = hidden_dim"
    and "attn_head_dim a = hidden_dim div num_heads" and "attn_dropout a = dropout"
    by simp_all
  have "0 \<le> hidden_dim div num_heads"
    using assms(2,3) by (simp add: pos_imp_zdiv_nonneg_iff)
  with f show p: "0 < hidden_dim div num_heads" by simp
  have "nat hidden_dim = nat (num_heads * (hidden_dim div num_heads))"
    using f by (simp add: mult.commute)
  also have "\<dots> = nat num_heads * nat (hidden_dim div num_heads)"
    using assms(3) by (simp add: nat_mult_distrib)
  finally show "nat hidden_dim = nat num_heads * nat (hidden_dim div num_heads)" .
qed

lemma scores_of_probs_None:
  "map (map (map softmax)) (scores_of h d w x) = snd (attention_spec_batch h d w x None)"
proof -
  have "map (map (map softmax)) (scores_of h d w x)
        = map (\<lambda>m. snd (attention_spec h d w m None)) x"
    unfolding scores_of_def by (simp only: map_map comp_def snd_attention_spec_None)
  also have "\<dots> = snd (attention_spec_batch h d w x None)"
    unfolding attention_spec_batch_def
    by (simp only: option.case Let_def snd_conv map_map comp_def)
  finally show ?thesis .
qed

lemma scores_of_probs_Some:
  "map (map (map softmax)) (add_mask (scores_of h d w x) am)
   = snd (attention_spec_batch h d w x (Some am))"
proof -
  have "map (map (map softmax)) (add_mask (scores_of h d w x) am)
        = map2 (\<lambda>m mb. snd (attention_spec h d w m (Some (hd mb)))) x am"
    unfolding scores_of_def add_mask_def
    by (simp only: map2_map_left map_map2 snd_attention_spec_Some)
  also have "\<dots> = snd (attention_spec_batch h d w x (Some am))"
    unfolding attention_spec_batch_def
    by (simp only: option.case Let_def snd_conv map_map2)
  finally show ?thesis .
qed

lemma fst_attention_spec:
  "fst (attention_spec h d w m mo)
   = dense_apply (w_out w)
       (merge_heads (length m)
          (map2 mm (snd (attention_spec h d w m mo))
             (split_heads h d (dense_apply (w_value w) m))))"
  by (simp add: attention_spec_def Let_def)

lemma map2_cong_zip:
  "(\<And>x y. (x, y) \<in> set (zip xs ys) \<Longrightarrow> f x y = g x y) \<Longrightarrow> map2 f xs ys = map2 g xs ys"
  by (rule map_cong) auto

lemma map2_map2_map_left:
  "map2 F (map2 G xs ys) (map v xs) = map2 (\<lambda>x y. F (G x y) (v x)) xs ys"
  by (induction xs ys rule: list_induct2') simp_all

lemma output_of_spec_None:
  assumes "has_shape3 n s k x"
  shows "output_of s w (snd (attention_spec_batch h d w x None)) (values_of h d w x)
         = fst (attention_spec_batch h d w x None)"
proof -
  have l: "length m = s" if "m \<in> set x" for m
    using assms that by (auto dest: has_shape3D has_shape2_len)
  have "output_of s w (snd (attention_spec_batch h d w x None)) (values_of h d w x)
        = map2 (\<lambda>pb vb. dense_apply (w_out w) (merge_heads s (map2 mm pb vb)))
            (map (\<lambda>m. snd (attention_spec h d w m None)) x)
            (map (\<lambda>m. split_heads h d (dense_apply (w_value w) m)) x)"
    unfolding output_of_def values_of_def attention_spec_batch_def
    by (simp only: option.case Let_def snd_conv map_map comp_def)
  also have "\<dots> = map (\<lambda>m. dense_apply (w_out w) (merge_heads s
                 (map2 mm (snd (attention_spec h d w m None))
                    (split_heads h d (dense_apply (w_value w) m))))) x"
    by (rule map2_map_map)
  also have "\<dots> = map (\<lambda>m. fst (attention_spec h d w m None)) x"
    by (rule map_cong) (simp_all add: fst_attention_spec l)
  also have "\<dots> = fst (attention_spec_batch h d w x None)"
    unfolding attention_spec_batch_def
    by (simp only: option.case Let_def fst_conv map_map comp_def)
  finally show ?thesis .
qed

lemma output_of_spec_Some:
  assumes "has_shape3 n s k x"
  shows "output_of s w (snd (attention_spec_batch h d w x (Some am))) (values_of h d w x)
         = fst (attention_spec_batch h d w x (Some am))"
proof -
  have l: "length m = s" if "(m, mb) \<in> set (zip x am)" for m mb
    using assms that by (auto dest!: set_zip_leftD dest: has_shape3D has_shape2_len)
  have "output_of s w (snd (attention_spec_batch h d w x (Some am))) (values_of h d w x)
        = map2 (\<lambda>pb vb. dense_apply (w_out w) (merge_heads s (map2 mm pb vb)))
            (map2 (\<lambda>m mb. snd (attention_spec h d w m (Some (hd mb)))) x am)
            (map (\<lambda>m. split_heads h d (dense_apply (w_value w) m)) x)"
    unfolding output_of_def values_of_def attention_spec_batch_def
    by (simp only: option.case Let_def snd_conv map_map2)
  also have "\<dots> = map2 (\<lambda>m mb. dense_apply (w_out w) (merge_heads s
                 (map2 mm (snd (attention_spec h d w m (Some (hd mb))))
                    (split_heads h d (dense_apply (w_value w) m))))) x am"
    by (rule map2_map2_map_left)
  also have "\<dots> = map2 (\<lambda>m mb. fst (attention_spec h d w m (Some (hd mb)))) x am"
    by (rule map2_cong_zip) (simp add: fst_attention_spec l)
  also have "\<dots> = fst (attention_spec_batch h d w x (Some am))"
    unfolding attention_spec_batch_def
    by (simp only: option.case Let_def fst_conv map_map2)
  finally show ?thesis .
qed

lemma scores_of_shape:
  assumes hpos: "0 < h" and dpos: "0 < d"
    and w: "attention_weights_shape (h * d) w"
    and x: "has_shape3 n s (h * d) x" and spos: "0 < s"
  shows "has_shape4 n h s s (scores_of h d w x)"
proof (rule has_shape4I)
  show "length (scores_of h d w x) = n"
    using x by (simp add: scores_of_def has_shape3_len)
next
  fix t assume "t \<in> set (scores_of h d w x)"
  then obtain m where m: "m \<in> set x"
    and t: "t = map2 (scaled_scores d) (split_heads h d (dense_apply (w_query w) m))
                  (split_heads h d (dense_apply (w_key w) m))"
    by (auto simp add: scores_of_def)
  have hd: "0 < h * d" using hpos dpos by simp
  have m2: "has_shape2 s (h * d) m" using x m by (rule has_shape3D)
  have "has_shape2 s (h * d) (dense_apply (w_query w) m)"
    and "has_shape2 s (h * d) (dense_apply (w_key w) m)"
    using m2 w hd unfolding attention_weights_shape_def by (auto intro: dense_apply_shape)
  then have "has_shape3 h s d (split_heads h d (dense_apply (w_query w) m))"
    and "has_shape3 h s d (split_heads h d (dense_apply (w_key w) m))"
    by (auto intro: split_heads_shape)
  then show "has_shape3 h s s t"
    unfolding t using spos dpos by (auto intro: has_shape3_map2 scaled_scores_shape)
qed















lemma map2_commute: "map2 f xs ys = map2 (\<lambda>a b. f b a) ys xs"
  by (induction xs ys rule: list_induct2') simp_all

lemma bcast_commute: "bcast f xs ys = bcast (\<lambda>a b. f b a) ys xs"
proof (cases "length xs = length ys")
  case True
  then show ?thesis
    using map2_commute [of f xs ys] by (simp add: bcast_def)
next
  case False
  then show ?thesis
    by (auto simp add: bcast_def)
qed

lemma add0_commute: "add0 x y = add0 y x"
  by (simp add: add0_def add.commute)

lemma add1_commute: "bcast add0 u v = bcast add0 v u"
proof -
  have "(\<lambda>a b. add0 b a) = add0" by (intro ext) (rule add0_commute)
  then show ?thesis using bcast_commute [of add0 u v] by simp
qed

lemma add2_commute: "bcast (bcast add0) p q = bcast (bcast add0) q p"
proof -
  have "(\<lambda>a b. bcast add0 b a) = bcast add0" by (intro ext) (rule add1_commute)
  then show ?thesis using bcast_commute [of "bcast add0" p q] by simp
qed

lemma add3_commute: "add3 s t = add3 t s"
proof -
  have "(\<lambda>a b. bcast (bcast add0) b a) = bcast (bcast add0)"
    by (intro ext) (rule add2_commute)
  then show ?thesis
    unfolding add3_def using bcast_commute [of "bcast (bcast add0)" s t] by simp
qed

lemma layer_norm_call_shape:
  assumes "has_shape3 n s d x" and "layer_norm_shape d p"
  shows "LayerNormalization_call p x = Some (layer_norm_spec p x)
       \<and> has_shape3 n s d (layer_norm_spec p x)"
proof -
  have c: "list_all (list_all (\<lambda>v. length v = length (gamma p))) x"
    using assms
    by (auto simp add: list_all_iff layer_norm_shape_def dest!: has_shape3D dest: has_shape2D)
  have "has_shape3 n s d (map (map (layer_norm_vec p)) x)"
  proof (rule has_shape3I)
    show "length (map (map (layer_norm_vec p)) x) = n"
      using assms(1) by (simp add: has_shape3_len)
  next
    fix m' assume "m' \<in> set (map (map (layer_norm_vec p)) x)"
    then obtain m where m: "m \<in> set x" and m': "m' = map (layer_norm_vec p) m" by auto
    have m2: "has_shape2 s d m" using assms(1) m by (rule has_shape3D)
    show "has_shape2 s d m'"
      unfolding m'
    proof (rule has_shape2I)
      show "length (map (layer_norm_vec p) m) = s" using m2 by (simp add: has_shape2_len)
    next
      fix r assume "r \<in> set (map (layer_norm_vec p) m)"
      then obtain v where "v \<in> set m" and r: "r = layer_norm_vec p v" by auto
      then have "length v = d" using m2 by (auto dest: has_shape2D)
      then show "length r = d"
        using assms(2) by (simp add: r layer_norm_vec_def layer_norm_shape_def)
    qed
  qed
  then show ?thesis
    using c by (simp add: LayerNormalization_call_def layer_norm_spec_def)
qed

lemma add3_shape:
  assumes "has_shape3 n s d a" and "has_shape3 n s d b"
  shows "add3 a b = Some (plus3 a b) \<and> has_shape3 n s d (plus3 a b)"
proof -
  have e: "add3 a b = Some (map2 (map2 (map2 (+))) a b)"
    unfolding add3_def
  proof (rule bcast_same_length)
    show "length a = length b" using assms by (simp add: has_shape3_len)
  next
    fix p q assume "(p, q) \<in> set (zip a b)"
    then have "has_shape2 s d p" and "has_shape2 s d q"
      using assms by (auto dest: set_zip_leftD set_zip_rightD has_shape3D)
    then show "bcast (bcast add0) p q = Some (map2 (map2 (+)) p q)"
      by (rule add_matrices)
  qed
  have "has_shape3 n s d (map2 (map2 (map2 (+))) a b)"
    using assms by (rule has_shape3_map2) (rule add_matrices_shape)
  then show ?thesis using e by (simp add: plus3_def)
qed

lemma gelu_shape:
  assumes "has_shape3 n s d x"
  shows "has_shape3 n s d (map (map (map gelu_tanh)) x)"
proof (rule has_shape3I)
  show "length (map (map (map gelu_tanh)) x) = n"
    using assms by (simp add: has_shape3_len)
next
  fix m' assume "m' \<in> set (map (map (map gelu_tanh)) x)"
  then obtain m where "m \<in> set x" and m': "m' = map (map gelu_tanh) m" by auto
  then have "has_shape2 s d m" using assms by (auto dest: has_shape3D)
  then show "has_shape2 s d m'"
    by (simp add: m' has_shape2_def has_shape1_def list_all_iff)
qed

lemma layer_build_attn:
  assumes "Gemma3VisionEncoderLayer_build lib l0 hidden_dim = Inr l"
  shows "\<exists>a. el_attn l = Some a
           \<and> Gemma3VisionAttention_init lib hidden_dim (el_num_heads l0) 0
               (dtype_policy (el_dtype l0)) = Inr a"
  using assms
  by (auto simp add: Gemma3VisionEncoderLayer_build_def Gemma3VisionAttention_build_def
      library_def Let_def split: sum.splits if_splits)

lemma compute_attention_spec:
  assumes "el_attn l = Some a"
    and "Gemma3VisionAttention_init lib hidden_dim num_heads 0 dtype = Inr a"
    and "0 < hidden_dim" and "0 < num_heads"
    and "attention_weights_shape (nat hidden_dim) (w_attn w)"
    and "has_shape3 n seq (nat hidden_dim) x" and "0 < n" and "0 < seq"
    and "case mask_arg of None \<Rightarrow> True | Some am \<Rightarrow> has_shape4 n 1 seq seq am"
  shows "compute_attention l w rnd x mask_arg
         = Some (fst (attention_spec_batch (nat num_heads) (nat (hidden_dim div num_heads))
                        (w_attn w) x mask_arg))
       \<and> has_shape3 n seq (nat hidden_dim)
           (fst (attention_spec_batch (nat num_heads) (nat (hidden_dim div num_heads))
                   (w_attn w) x mask_arg))"
proof -
  define h where "h = nat num_heads"
  define d where "d = nat (hidden_dim div num_heads)"
  note f = attention_init_fields [OF assms(2-4)]
  have hpos: "0 < h" and dpos: "0 < d"
    using assms(4) f(5) by (simp_all add: h_def d_def)
  have hd: "nat hidden_dim = h * d" using f(6) by (simp add: h_def d_def)
  have ah: "nat (attn_num_heads a) = h" and ad: "nat (attn_head_dim a) = d"
    and ahd: "nat (attn_hidden_dim a) = h * d"
    using f hd by (simp_all add: h_def d_def)
  have w: "attention_weights_shape (h * d) (w_attn w)" using assms(5) by (simp add: hd)
  have x: "has_shape3 n seq (h * d) x" using assms(6) by (simp add: hd)
  have sc: "has_shape4 n h seq seq (scores_of h d (w_attn w) x)"
    using hpos dpos w x assms(8) by (rule scores_of_shape)
  define s2 where "s2 = (case mask_arg of None \<Rightarrow> scores_of h d (w_attn w) x
                         | Some am \<Rightarrow> add_mask (scores_of h d (w_attn w) x) am)"
  have ms: "(case mask_arg of None \<Rightarrow> Some (scores_of h d (w_attn w) x)
             | Some am \<Rightarrow> add4 (scores_of h d (w_attn w) x) am) = Some s2"
    using assms(9) sc unfolding s2_def add_mask_def
    by (auto split: option.splits intro: add4_mask)
  have s24: "has_shape4 n h seq seq s2"
    using assms(9) sc unfolding s2_def add_mask_def
    by (auto split: option.splits intro: add4_mask_shape)
  have P: "map (map (map softmax)) s2 = snd (attention_spec_batch h d (w_attn w) x mask_arg)"
    unfolding s2_def
    by (cases mask_arg) (simp_all add: scores_of_probs_None scores_of_probs_Some)
  have dr: "Dropout_call (attn_dropout a) rnd (map (map (map softmax)) s2) False
            = map (map (map softmax)) s2"
    by (simp add: Dropout_call_def)
  have r: "False \<and> 0 < attn_dropout a \<longrightarrow>
              has_shape4 n h seq seq (rnd (map (map (map softmax)) s2))"
    by simp
  have o: "output_of seq (w_attn w) (map (map (map softmax)) s2) (values_of h d (w_attn w) x)
           = fst (attention_spec_batch h d (w_attn w) x mask_arg)"
    unfolding P using x
    by (cases mask_arg) (simp_all add: output_of_spec_None output_of_spec_Some)
  note g = attention_call_general [where rnd = rnd and training = False
        and mask_arg = mask_arg and ?s2.0 = s2, OF ah ad ahd hpos dpos w x assms(7,8) ms s24 r,
        unfolded dr o]
  show ?thesis
    using g assms(1) by (simp add: compute_attention_def hd h_def d_def)
qed

lemma encoder_layer_call_general:
  assumes "Gemma3VisionEncoderLayer_build lib l0 hidden_dim = Inr l"
    and "0 < hidden_dim" and "0 < el_num_heads l0" and "0 < el_intermediate_dim l0"
    and "encoder_layer_weights_shape (nat hidden_dim) (nat (el_intermediate_dim l0)) w"
    and "has_shape3 n seq (nat hidden_dim) x" and "0 < n" and "0 < seq"
    and "case mask_arg of None \<Rightarrow> True | Some am \<Rightarrow> has_shape4 n 1 seq seq am"
  shows "Gemma3VisionEncoderLayer_call l w rnd x mask_arg
         = Some (encoder_layer_spec (nat (el_num_heads l0))
                   (nat (hidden_dim div el_num_heads l0)) w x mask_arg)
       \<and> has_shape3 n seq (nat hidden_dim)
           (encoder_layer_spec (nat (el_num_heads l0))
              (nat (hidden_dim div el_num_heads l0)) w x mask_arg)"
proof -
  let ?D = "nat hidden_dim"
  let ?I = "nat (el_intermediate_dim l0)"
  let ?h = "nat (el_num_heads l0)"
  let ?d = "nat (hidden_dim div el_num_heads l0)"
  have Dpos: "0 < ?D" and Ipos: "0 < ?I" using assms(2,4) by simp_all
  note ws = assms(5) [unfolded encoder_layer_weights_shape_def]
  have wa: "attention_weights_shape ?D (w_attn w)" and l1: "layer_norm_shape ?D (w_layer_norm_1 w)"
    and d1: "dense_shape ?D ?I (w_mlp_dense_1 w)" and d2: "dense_shape ?I ?D (w_mlp_dense_2 w)"
    and l2: "layer_norm_shape ?D (w_layer_norm_2 w)"
    using ws by simp_all
  from layer_build_attn [OF assms(1)] obtain a where a: "el_attn l = Some a"
    and ai: "Gemma3VisionAttention_init lib hidden_dim (el_num_heads l0) 0
               (dtype_policy (el_dtype l0)) = Inr a"
    by blast
  define x1 where "x1 = layer_norm_spec (w_layer_norm_1 w) x"
  define x2 where "x2 = fst (attention_spec_batch ?h ?d (w_attn w) x1 mask_arg)"
  define x3 where "x3 = plus3 x x2"
  define n2 where "n2 = layer_norm_spec (w_layer_norm_2 w) x3"
  define x4 where "x4 = map (dense_apply (w_mlp_dense_1 w)) n2"
  define x5 where "x5 = map (map (map gelu_tanh)) x4"
  define x6 where "x6 = map (dense_apply (w_mlp_dense_2 w)) x5"
  define y where "y = plus3 x3 x6"
  have c1: "LayerNormalization_call (w_layer_norm_1 w) x = Some x1"
    and s1: "has_shape3 n seq ?D x1"
    using layer_norm_call_shape [OF assms(6) l1] by (simp_all add: x1_def)
  have c2: "compute_attention l w rnd x1 mask_arg = Some x2" and s2: "has_shape3 n seq ?D x2"
    using compute_attention_spec [OF a ai assms(2,3) wa s1 assms(7,8,9), of rnd]
    by (simp_all add: x2_def)
  have "add3 x x2 = Some x3" and s3: "has_shape3 n seq ?D x3"
    using add3_shape [OF assms(6) s2] by (simp_all add: x3_def)
  then have c3: "add3 x2 x = Some x3" by (simp add: add3_commute [of x2 x])
  have c4: "LayerNormalization_call (w_layer_norm_2 w) x3 = Some n2"
    and s4: "has_shape3 n seq ?D n2"
    using layer_norm_call_shape [OF s3 l2] by (simp_all add: n2_def)
  have c5: "Dense_call (w_mlp_dense_1 w) n2 = Some x4"
    unfolding x4_def using s4 d1 by (rule Dense_call_linear)
  have s5: "has_shape3 n seq ?I x4"
    unfolding x4_def using s4 d1 Dpos by (rule Dense_call_shape)
  have s6: "has_shape3 n seq ?I x5" unfolding x5_def using s5 by (rule gelu_shape)
  have c7: "Dense_call (w_mlp_dense_2 w) x5 = Some x6"
    unfolding x6_def using s6 d2 by (rule Dense_call_linear)
  have s7: "has_shape3 n seq ?D x6"
    unfolding x6_def using s6 d2 Ipos by (rule Dense_call_shape)
  have c8: "add3 x3 x6 = Some y" and s8: "has_shape3 n seq ?D y"
    using add3_shape [OF s3 s7] by (simp_all add: y_def)
  have call: "Gemma3VisionEncoderLayer_call l w rnd x mask_arg = Some y"
    unfolding Gemma3VisionEncoderLayer_call_def Let_def
    by (simp only: c1 c2 c3 c4 c5 c7 c8 x5_def [symmetric] Option.bind.simps)
  have spec: "encoder_layer_spec ?h ?d w x mask_arg = y"
    unfolding encoder_layer_spec_def mlp_spec_def Let_def
    by (simp only: y_def x6_def x5_def x4_def n2_def x3_def x2_def x1_def)
  show ?thesis
    using call s8 by (simp only: spec simp_thms)
qed

text \<open>
  Claim C5: for an encoder layer built for \<open>hidden_dim\<close>, with the weights as
  \<^verbatim>\<open>build\<close> creates them (the first dense layer of the MLP from \<open>hidden_dim\<close> to
  \<open>intermediate_dim\<close>, the second back to \<open>hidden_dim\<close>), every input \<open>x\<close> of shape
  \<open>(N, seq, hidden_dim)\<close> and every mask that is absent or has the shape
  \<open>(N, 1, seq, seq)\<close> of the data model, the layer returns
  \<open>x'' = x' + MLP(LayerNorm(x'))\<close> for \<open>x' = x + Attention(LayerNorm(x), mask)\<close>, where
  the MLP is the first dense layer, the GELU in its tanh approximation and the second
  dense layer, and the attention is the attended output of the specification's
  attention layer.
\<close>

theorem encoder_layer_call_meets_spec:
  assumes "Gemma3VisionEncoderLayer_build lib l0 hidden_dim = Inr l"
    and "0 < hidden_dim" and "0 < el_num_heads l0" and "0 < el_intermediate_dim l0"
    and "encoder_layer_weights_shape (nat hidden_dim) (nat (el_intermediate_dim l0)) w"
    and "has_shape3 n seq (nat hidden_dim) x" and "0 < n" and "0 < seq"
    and "case mask_arg of None \<Rightarrow> True | Some am \<Rightarrow> has_shape4 n 1 seq seq am"
  shows "Gemma3VisionEncoderLayer_call l w rnd x mask_arg
         = Some (encoder_layer_spec (nat (el_num_heads l0))
                   (nat (hidden_dim div el_num_heads l0)) w x mask_arg)"
  using encoder_layer_call_general [OF assms] by (rule conjunct1)


text \<open>
  Witness for C5: a layer with one head and \<^verbatim>\<open>intermediate_dim=3\<close> built for
  \<^verbatim>\<open>hidden_dim=2\<close>, on a batch of one image with one token and a mask of shape
  \<open>(1, 1, 1, 1)\<close>.
\<close>

theorem encoder_layer_call_meets_spec_witness:
  "\<not> isl (Gemma3VisionEncoderLayer_init keras_accepts 1 3 (1 / 1000000) DNone ''encoder_block_0'')
   \<and> \<not> isl (Gemma3VisionEncoderLayer_build keras_accepts
         (projr (Gemma3VisionEncoderLayer_init keras_accepts 1 3 (1 / 1000000) DNone ''encoder_block_0'')) 2)
   \<and> encoder_layer_weights_shape (nat 2) (nat 3)
        \<lparr> w_attn =
            \<lparr> w_query = \<lparr> dense_kernel = [[1, 0], [0, 1]], dense_bias = [0, 0] \<rparr>,
              w_key = \<lparr> dense_kernel = [[1, 0], [0, 1]], dense_bias = [0, 0] \<rparr>,
              w_value = \<lparr> dense_kernel = [[1, 0], [0, 1]], dense_bias = [0, 0] \<rparr>,
              w_out = \<lparr> dense_kernel = [[1, 0], [0, 1]], dense_bias = [0, 0] \<rparr> \<rparr>,
          w_layer_norm_1 = \<lparr> gamma = [1, 1], beta = [0, 0], epsilon = 1 / 1000000 \<rparr>,
          w_mlp_dense_1 = \<lparr> dense_kernel = [[1, 0, 1], [0, 1, 1]], dense_bias = [0, 0, 0] \<rparr>,
          w_mlp_dense_2 = \<lparr> dense_kernel = [[1, 0], [0, 1], [1, 1]], dense_bias = [0, 0] \<rparr>,
          w_layer_norm_2 = \<lparr> gamma = [1, 1], beta = [0, 0], epsilon = 1 / 1000000 \<rparr> \<rparr>
   \<and> has_shape3 1 1 (nat 2) [[[1, 2 :: real]]]
   \<and> has_shape4 1 1 1 1 [[[[5 :: real]]]]
   \<and> Gemma3VisionEncoderLayer_call
        (projr (Gemma3VisionEncoderLayer_build keras_accepts
           (projr (Gemma3VisionEncoderLayer_init keras_accepts 1 3 (1 / 1000000) DNone ''encoder_block_0'')) 2))
        \<lparr> w_attn =
            \<lparr> w_query = \<lparr> dense_kernel = [[1, 0], [0, 1]], dense_bias = [0, 0] \<rparr>,
              w_key = \<lparr> dense_kernel = [[1, 0], [0, 1]], dense_bias = [0, 0] \<rparr>,
              w_value = \<lparr> dense_kernel = [[1, 0], [0, 1]], dense_bias = [0, 0] \<rparr>,
              w_out = \<lparr> dense_kernel = [[1, 0], [0, 1]], dense_bias = [0, 0] \<rparr> \<rparr>,
          w_layer_norm_1 = \<lparr> gamma = [1, 1], beta = [0, 0], epsilon = 1 / 1000000 \<rparr>,
          w_mlp_dense_1 = \<lparr> dense_kernel = [[1, 0, 1], [0, 1, 1]], dense_bias = [0, 0, 0] \<rparr>,
          w_mlp_dense_2 = \<lparr> dense_kernel = [[1, 0], [0, 1], [1, 1]], dense_bias = [0, 0] \<rparr>,
          w_layer_norm_2 = \<lparr> gamma = [1, 1], beta = [0, 0], epsilon = 1 / 1000000 \<rparr> \<rparr>
        (\<lambda>t. t) [[[1, 2]]] (Some [[[[5]]]])
      = Some (encoder_layer_spec (nat 1) (nat (2 div 1))
          \<lparr> w_attn =
            \<lparr> w_query = \<lparr> dense_kernel = [[1, 0], [0, 1]], dense_bias = [0, 0] \<rparr>,
              w_key = \<lparr> dense_kernel = [[1, 0], [0, 1]], dense_bias = [0, 0] \<rparr>,
              w_value = \<lparr> dense_kernel = [[1, 0], [0, 1]], dense_bias = [0, 0] \<rparr>,
              w_out = \<lparr> dense_kernel = [[1, 0], [0, 1]], dense_bias = [0, 0] \<rparr> \<rparr>,
          w_layer_norm_1 = \<lparr> gamma = [1, 1], beta = [0, 0], epsilon = 1 / 1000000 \<rparr>,
          w_mlp_dense_1 = \<lparr> dense_kernel = [[1, 0, 1], [0, 1, 1]], dense_bias = [0, 0, 0] \<rparr>,
          w_mlp_dense_2 = \<lparr> dense_kernel = [[1, 0], [0, 1], [1, 1]], dense_bias = [0, 0] \<rparr>,
          w_layer_norm_2 = \<lparr> gamma = [1, 1], beta = [0, 0], epsilon = 1 / 1000000 \<rparr> \<rparr>
          [[[1, 2]]] (Some [[[[5]]]]))"
proof -
  let ?l0 = "projr (Gemma3VisionEncoderLayer_init keras_accepts 1 3 (1 / 1000000) DNone ''encoder_block_0'')"
  let ?b = "Gemma3VisionEncoderLayer_build keras_accepts ?l0 2"
  let ?w = "\<lparr> w_attn =
            \<lparr> w_query = \<lparr> dense_kernel = [[1, 0], [0, 1]], dense_bias = [0, 0] \<rparr>,
              w_key = \<lparr> dense_kernel = [[1, 0], [0, 1]], dense_bias = [0, 0] \<rparr>,
              w_value = \<lparr> dense_kernel = [[1, 0], [0, 1]], dense_bias = [0, 0] \<rparr>,
              w_out = \<lparr> dense_kernel = [[1, 0], [0, 1]], dense_bias = [0, 0] \<rparr> \<rparr>,
          w_layer_norm_1 = \<lparr> gamma = [1, 1], beta = [0, 0], epsilon = 1 / 1000000 \<rparr>,
          w_mlp_dense_1 = \<lparr> dense_kernel = [[1, 0, 1], [0, 1, 1]], dense_bias = [0, 0, 0] \<rparr>,
          w_mlp_dense_2 = \<lparr> dense_kernel = [[1, 0], [0, 1], [1, 1]], dense_bias = [0, 0] \<rparr>,
          w_layer_norm_2 = \<lparr> gamma = [1, 1], beta = [0, 0], epsilon = 1 / 1000000 \<rparr> \<rparr>"
  have n0: "\<not> isl (Gemma3VisionEncoderLayer_init keras_accepts 1 3 (1 / 1000000) DNone ''encoder_block_0'')"
    by (simp add: Gemma3VisionEncoderLayer_init_def library_def known_dtype_def)
  have l0: "el_num_heads ?l0 = 1" "el_intermediate_dim ?l0 = 3"
    by (simp_all add: Gemma3VisionEncoderLayer_init_def library_def known_dtype_def)
  have n: "\<not> isl ?b"
    by (simp add: Gemma3VisionEncoderLayer_init_def Gemma3VisionEncoderLayer_build_def
        Gemma3VisionAttention_init_def Gemma3VisionAttention_build_def library_def floordiv_def
        float_overflow_def known_dtype_def Let_def)
  then have b: "?b = Inr (projr ?b)" by simp
  have w: "encoder_layer_weights_shape (nat 2) (nat (el_intermediate_dim ?l0)) ?w"
    unfolding l0
    by (simp add: encoder_layer_weights_shape_def attention_weights_shape_def dense_shape_def
        layer_norm_shape_def has_shape2_def has_shape1_def)
  have x: "has_shape3 1 1 (nat 2) [[[1, 2 :: real]]]"
    by (simp add: has_shape3_def has_shape2_def has_shape1_def)
  have m: "has_shape4 1 1 1 1 [[[[5 :: real]]]]"
    by (simp add: has_shape4_def has_shape3_def has_shape2_def has_shape1_def)
  have m': "case Some [[[[5 :: real]]]] of None \<Rightarrow> True | Some am \<Rightarrow> has_shape4 1 1 1 1 am"
    using m by simp
  have p: "(0::int) < 2" "0 < el_num_heads ?l0" "0 < el_intermediate_dim ?l0"
    by (simp_all add: l0)
  show ?thesis
    using n0 n w x m
      encoder_layer_call_meets_spec [OF b p w x _ _ m', of "\<lambda>t. t"]
    by (simp add: l0)
qed



end
